theory Spec2Isabelle
  imports Main
begin

section \<open>Python values and exceptions\<close>

text \<open>
  \<^verbatim>\<open>practica.py\<close> is a Prefect flow of five tasks (extract, transform, save,
  reload, load). Python strings are modelled as \<^typ>\<open>string\<close>, a character standing
  for a code point below 256. A \<^verbatim>\<open>float\<close> is carried by its \<^verbatim>\<open>repr\<close> text (finite
  values only): the program copies floats and never computes with them.
\<close>

datatype pyfloat = PyFloat string

datatype json =
    JNull
  | JBool bool
  | JInt int
  | JFloat pyfloat
  | JStr string
  | JList "json list"
  | JObj "(string \<times> json) list"

text \<open>
  The exceptions the program can raise. \<open>External\<close> is an exception raised inside
  a library or the operating system (requests, pymongo, the file system), named by its
  class; \<open>HTTPError\<close> is what \<^verbatim>\<open>raise_for_status\<close> raises for a 4xx or 5xx status.
\<close>

datatype pyerr =
    ValueError string
  | KeyError json
  | TypeError
  | AttributeError
  | IndexError
  | HTTPError nat
  | FileNotFoundError string
  | JSONDecodeError
  | External string

section \<open>Configuration: \<^verbatim>\<open>load_env_file\<close> and \<^verbatim>\<open>get_required_env\<close>\<close>

type_synonym environ = "string \<rightharpoonup> string"

text \<open>\<^verbatim>\<open>str.isspace\<close> on code points below 256.\<close>

definition py_isspace :: "char \<Rightarrow> bool" where
  "py_isspace c =
     ((of_char c :: nat) \<in> {9, 10, 11, 12, 13, 28, 29, 30, 31, 32, 133, 160})"

text \<open>\<^verbatim>\<open>s.strip()\<close> and \<^verbatim>\<open>s.strip(c)\<close>: the characters are removed at both ends.\<close>

definition strip_by :: "(char \<Rightarrow> bool) \<Rightarrow> string \<Rightarrow> string" where
  "strip_by P s = rev (dropWhile P (rev (dropWhile P s)))"

definition strip :: "string \<Rightarrow> string" where
  "strip s = strip_by py_isspace s"

definition strip_char :: "char \<Rightarrow> string \<Rightarrow> string" where
  "strip_char c s = strip_by (\<lambda>x. x = c) s"

text \<open>\<^verbatim>\<open>line.split("=", 1)\<close> on a line that contains \<^verbatim>\<open>=\<close>: the text before the
  first \<^verbatim>\<open>=\<close> and the text after it.\<close>

definition split_eq :: "string \<Rightarrow> string \<times> string" where
  "split_eq line =
     (takeWhile (\<lambda>x. x \<noteq> CHR ''='') line, tl (dropWhile (\<lambda>x. x \<noteq> CHR ''='') line))"

text \<open>
  \<^verbatim>\<open>os.environ.setdefault(key, value)\<close>: a key that is present keeps its value; a
  key that is absent is stored, unless the operating system refuses the pair
  (\<open>putenv_error\<close>, for example an empty name), and then the exception leaves the
  function.
\<close>

definition setdefault ::
  "(string \<Rightarrow> string \<Rightarrow> pyerr option) \<Rightarrow> string \<Rightarrow> string \<Rightarrow> environ \<Rightarrow> pyerr + environ" where
  "setdefault putenv_error key val env =
     (if key \<in> dom env then Inr env
      else case putenv_error key val of
             Some e \<Rightarrow> Inl e
           | None \<Rightarrow> Inr (env(key \<mapsto> val)))"

text \<open>
  What one \<^verbatim>\<open>raw_line\<close> of the file contributes: nothing (\<^verbatim>\<open>continue\<close>) for a
  blank line, a comment or a line without \<^verbatim>\<open>=\<close>; otherwise the stripped key and
  the stripped, unquoted value.
\<close>

definition env_entry :: "string \<Rightarrow> (string \<times> string) option" where
  "env_entry raw_line =
     (let line = strip raw_line in
      if line = [] \<or> take 1 line = ''#'' \<or> CHR ''='' \<notin> set line then None
      else
        let (key, val) = split_eq line
        in Some (strip key, strip_char (CHR 0x27) (strip_char (CHR 0x22) (strip val))))"

text \<open>The \<^verbatim>\<open>for raw_line in env_file\<close> loop, over the remaining lines.\<close>

fun env_lines ::
  "(string \<Rightarrow> string \<Rightarrow> pyerr option) \<Rightarrow> string list \<Rightarrow> environ \<Rightarrow> (pyerr + unit) \<times> environ" where
  "env_lines putenv_error [] env = (Inr (), env)"
| "env_lines putenv_error (raw_line # rest) env =
     (case env_entry raw_line of
        None \<Rightarrow> env_lines putenv_error rest env
      | Some (key, val) \<Rightarrow>
          (case setdefault putenv_error key val env of
             Inl e \<Rightarrow> (Inl e, env)
           | Inr env' \<Rightarrow> env_lines putenv_error rest env'))"

text \<open>
  \<^verbatim>\<open>load_env_file\<close>: \<open>env_file\<close> is the file at the resolved path, \<open>None\<close> when
  \<^verbatim>\<open>env_path.exists()\<close> is false, else its lines.
\<close>

definition load_env_file ::
  "(string \<Rightarrow> string \<Rightarrow> pyerr option) \<Rightarrow> string list option \<Rightarrow> environ \<Rightarrow> (pyerr + unit) \<times> environ" where
  "load_env_file putenv_error env_file env =
     (case env_file of
        None \<Rightarrow> (Inr (), env)
      | Some ls \<Rightarrow> env_lines putenv_error ls env)"

text \<open>\<^verbatim>\<open>get_required_env\<close>: \<^verbatim>\<open>os.getenv\<close> gives \<^verbatim>\<open>None\<close> for an unset name, and
  \<^verbatim>\<open>not value\<close> holds for \<^verbatim>\<open>None\<close> and for the empty string.\<close>

definition get_required_env :: "environ \<Rightarrow> string \<Rightarrow> pyerr + string" where
  "get_required_env env var_name =
     (case env var_name of
        None \<Rightarrow> Inl (ValueError (''Variable de entorno requerida no definida: '' @ var_name))
      | Some v \<Rightarrow>
          if v = [] then Inl (ValueError (''Variable de entorno requerida no definida: '' @ var_name))
          else Inr v)"

section \<open>Operations on Python values\<close>

type_synonym pydict = "(string \<times> json) list"

text \<open>Truth value of an object, as \<^verbatim>\<open>not x\<close> and \<^verbatim>\<open>if x\<close> test it.\<close>

fun truthy :: "json \<Rightarrow> bool" where
  "truthy JNull = False"
| "truthy (JBool b) = b"
| "truthy (JInt i) = (i \<noteq> 0)"
| "truthy (JFloat f) = (f \<noteq> PyFloat ''0.0'' \<and> f \<noteq> PyFloat ''-0.0'')"
| "truthy (JStr s) = (s \<noteq> [])"
| "truthy (JList xs) = (xs \<noteq> [])"
| "truthy (JObj kvs) = (kvs \<noteq> [])"

text \<open>\<^verbatim>\<open>obj["k"]\<close> for a string key: only a dict can be subscripted by a string.\<close>

fun getitem :: "json \<Rightarrow> string \<Rightarrow> pyerr + json" where
  "getitem (JObj kvs) k = (case map_of kvs k of None \<Rightarrow> Inl (KeyError (JStr k)) | Some v \<Rightarrow> Inr v)"
| "getitem _ k = Inl TypeError"

text \<open>\<^verbatim>\<open>obj[0]\<close>: the first element of a list or string; a dict decoded from JSON has
  string keys only, so the key \<^verbatim>\<open>0\<close> is never in it.\<close>

fun getitem0 :: "json \<Rightarrow> pyerr + json" where
  "getitem0 (JList []) = Inl IndexError"
| "getitem0 (JList (x # xs)) = Inr x"
| "getitem0 (JStr []) = Inl IndexError"
| "getitem0 (JStr (c # cs)) = Inr (JStr [c])"
| "getitem0 (JObj kvs) = Inl (KeyError (JInt 0))"
| "getitem0 _ = Inl TypeError"

text \<open>\<^verbatim>\<open>obj.get(k, default)\<close>: only a dict has the method.\<close>

fun py_get :: "json \<Rightarrow> string \<Rightarrow> json \<Rightarrow> pyerr + json" where
  "py_get (JObj kvs) k d = Inr (case map_of kvs k of None \<Rightarrow> d | Some v \<Rightarrow> v)"
| "py_get _ k d = Inl AttributeError"

definition bind_err :: "'e + 'a \<Rightarrow> ('a \<Rightarrow> 'e + 'b) \<Rightarrow> 'e + 'b" where
  "bind_err m f = (case m of Inl e \<Rightarrow> Inl e | Inr v \<Rightarrow> f v)"

text \<open>The entries of a dict display are evaluated in order: the first one that raises
  decides the exception, and no dict is built.\<close>

fun collect :: "(string \<times> (pyerr + json)) list \<Rightarrow> pyerr + pydict" where
  "collect [] = Inr []"
| "collect ((k, Inl e) # rest) = Inl e"
| "collect ((k, Inr v) # rest) = (case collect rest of Inl e \<Rightarrow> Inl e | Inr kvs \<Rightarrow> Inr ((k, v) # kvs))"

section \<open>The clock\<close>

text \<open>
  What the platform decides in \<^verbatim>\<open>datetime.fromtimestamp\<close> and \<^verbatim>\<open>datetime.now\<close>:
  the offset of the local zone from UTC at an epoch second, the exception raised for an
  epoch outside the supported range, the whole seconds of a float epoch, and the
  ISO-8601 text of the current time.
\<close>

record clock =
  utc_offset :: "int \<Rightarrow> int"
  range_error :: "int \<Rightarrow> pyerr option"
  float_seconds :: "pyfloat \<Rightarrow> pyerr + int"
  now_iso :: string

definition digit :: "nat \<Rightarrow> char" where
  "digit d = char_of (48 + d)"

definition two_digits :: "nat \<Rightarrow> string" where
  "two_digits n = [digit (n div 10 mod 10), digit (n mod 10)]"

text \<open>\<^verbatim>\<open>strftime("%H:%M:%S")\<close> of a time of day given in seconds after midnight.\<close>

definition strftime_HMS :: "nat \<Rightarrow> string" where
  "strftime_HMS sod =
     two_digits (sod div 3600) @ '':'' @ two_digits (sod mod 3600 div 60) @ '':'' @ two_digits (sod mod 60)"

text \<open>The epoch second of the argument of \<^verbatim>\<open>fromtimestamp\<close>: a number is accepted
  (\<^verbatim>\<open>bool\<close> is a subclass of \<^verbatim>\<open>int\<close>), anything else is a \<^verbatim>\<open>TypeError\<close>.\<close>

fun epoch_seconds :: "clock \<Rightarrow> json \<Rightarrow> pyerr + int" where
  "epoch_seconds clk (JInt t) = Inr t"
| "epoch_seconds clk (JBool b) = Inr (if b then 1 else 0)"
| "epoch_seconds clk (JFloat f) = float_seconds clk f"
| "epoch_seconds clk _ = Inl TypeError"

text \<open>\<^verbatim>\<open>datetime.fromtimestamp(x).strftime("%H:%M:%S")\<close>: the local time of day.\<close>

definition local_HMS :: "clock \<Rightarrow> json \<Rightarrow> pyerr + json" where
  "local_HMS clk x =
     bind_err (epoch_seconds clk x) (\<lambda>t.
       case range_error clk t of
         Some e \<Rightarrow> Inl e
       | None \<Rightarrow> Inr (JStr (strftime_HMS (nat ((t + utc_offset clk t) mod 86400)))))"

section \<open>The transformation: \<^verbatim>\<open>transformar_datos\<close>\<close>

definition required_top_keys :: "string list" where
  "required_top_keys = [''name'', ''sys'', ''main'', ''weather'', ''clouds'', ''coord'']"

text \<open>\<^verbatim>\<open>missing = [k for k in required_top_keys if k not in data]\<close>\<close>

definition missing_keys :: "pydict \<Rightarrow> string list" where
  "missing_keys data = filter (\<lambda>k. k \<notin> fst ` set data) required_top_keys"

fun join :: "string \<Rightarrow> string list \<Rightarrow> string" where
  "join sep [] = []"
| "join sep [x] = x"
| "join sep (x # y # ys) = x @ sep @ join sep (y # ys)"

text \<open>\<^verbatim>\<open>repr\<close> of a list of the required keys, as the f-string formats \<^verbatim>\<open>{missing}\<close>:
  each key between single quotes (the keys hold no quote or backslash).\<close>

definition repr_keys :: "string list \<Rightarrow> string" where
  "repr_keys ks = ''['' @ join '', '' (map (\<lambda>k. [CHR 0x27] @ k @ [CHR 0x27]) ks) @ '']''"

definition missing_message :: "string list \<Rightarrow> string" where
  "missing_message missing = ''Faltan claves requeridas en la respuesta: '' @ repr_keys missing"

definition weather_message :: string where
  "weather_message = ''La clave 'weather' no contiene informaci'' @ [CHR 0xF3] @ ''n.''"

text \<open>The two checks at the head of the \<^verbatim>\<open>try\<close> block; \<open>None\<close> when both pass.\<close>

definition validar :: "pydict \<Rightarrow> pyerr option" where
  "validar data =
     (if missing_keys data \<noteq> [] then Some (ValueError (missing_message (missing_keys data)))
      else if \<not> (case map_of data ''weather'' of None \<Rightarrow> False | Some v \<Rightarrow> truthy v)
        then Some (ValueError weather_message)
      else None)"

text \<open>\<^verbatim>\<open>data[a][b]\<close>\<close>

definition getitem2 :: "pydict \<Rightarrow> string \<Rightarrow> string \<Rightarrow> pyerr + json" where
  "getitem2 data a b = bind_err (getitem (JObj data) a) (\<lambda>x. getitem x b)"

text \<open>\<^verbatim>\<open>data["weather"][0][b]\<close>\<close>

definition weather0 :: "pydict \<Rightarrow> string \<Rightarrow> pyerr + json" where
  "weather0 data b =
     bind_err (getitem (JObj data) ''weather'') (\<lambda>ws. bind_err (getitem0 ws) (\<lambda>x. getitem x b))"

text \<open>\<^verbatim>\<open>data.get("wind", {}).get(b, 0)\<close>\<close>

definition wind :: "pydict \<Rightarrow> string \<Rightarrow> pyerr + json" where
  "wind data b = bind_err (py_get (JObj data) ''wind'' (JObj [])) (\<lambda>x. py_get x b (JInt 0))"

text \<open>The dict display \<^verbatim>\<open>registro_clima = {...}\<close>, entry by entry in the order written.\<close>

definition registro_clima :: "clock \<Rightarrow> pydict \<Rightarrow> pyerr + pydict" where
  "registro_clima clk data = collect
     [(''ciudad'', getitem (JObj data) ''name''),
      (''pais'', getitem2 data ''sys'' ''country''),
      (''temperatura'', getitem2 data ''main'' ''temp''),
      (''sensacion_termica'', getitem2 data ''main'' ''feels_like''),
      (''temp_min'', getitem2 data ''main'' ''temp_min''),
      (''temp_max'', getitem2 data ''main'' ''temp_max''),
      (''humedad'', getitem2 data ''main'' ''humidity''),
      (''presion'', getitem2 data ''main'' ''pressure''),
      (''descripcion'', weather0 data ''description''),
      (''icono'', weather0 data ''icon''),
      (''nubosidad'', getitem2 data ''clouds'' ''all''),
      (''viento_velocidad'', wind data ''speed''),
      (''viento_direccion'', wind data ''deg''),
      (''visibilidad'', py_get (JObj data) ''visibility'' (JInt 0)),
      (''amanecer'', bind_err (getitem2 data ''sys'' ''sunrise'') (local_HMS clk)),
      (''atardecer'', bind_err (getitem2 data ''sys'' ''sunset'') (local_HMS clk)),
      (''coordenadas'',
         bind_err (collect [(''latitud'', getitem2 data ''coord'' ''lat''),
                            (''longitud'', getitem2 data ''coord'' ''lon'')])
           (\<lambda>kvs. Inr (JObj kvs))),
      (''timestamp'', Inr (JStr (now_iso clk)))]"

text \<open>
  The \<^verbatim>\<open>try\<close> block up to the \<^verbatim>\<open>return\<close>, without its log calls: the checks, the
  dict, and the argument of the success log, where \<^verbatim>\<open>unicodedata.normalize\<close> raises
  \<^verbatim>\<open>TypeError\<close> unless \<^verbatim>\<open>registro_clima["ciudad"]\<close> is a string.
\<close>

definition transformar :: "clock \<Rightarrow> pydict \<Rightarrow> pyerr + pydict" where
  "transformar clk data =
     (case validar data of
        Some e \<Rightarrow> Inl e
      | None \<Rightarrow>
          bind_err (registro_clima clk data) (\<lambda>registro.
            case map_of registro ''ciudad'' of
              Some (JStr s) \<Rightarrow> Inr registro
            | _ \<Rightarrow> Inl TypeError))"

section \<open>The JSON text of a value: \<^verbatim>\<open>json.dump\<close> and \<^verbatim>\<open>json.load\<close>\<close>

text \<open>
  \<^verbatim>\<open>json.dump(obj, fp, ensure_ascii=False, indent=2)\<close> writes the text below: two
  spaces per nesting level, \<^verbatim>\<open>,\<close> and a new line between items, \<^verbatim>\<open>: \<close> after a key,
  and in a string only the quote, the backslash and the control characters escaped.
\<close>

definition dq :: char where "dq = CHR 0x22"
definition bs :: char where "bs = CHR 0x5C"

definition hex_digit :: "nat \<Rightarrow> char" where
  "hex_digit d = (if d < 10 then char_of (48 + d) else char_of (87 + d))"

definition escape_char :: "char \<Rightarrow> string" where
  "escape_char c =
     (if c = dq then [bs, dq]
      else if c = bs then [bs, bs]
      else if c = CHR 0x0A then [bs, CHR ''n'']
      else if c = CHR 0x0D then [bs, CHR ''r'']
      else if c = CHR 0x09 then [bs, CHR ''t'']
      else if c = CHR 0x08 then [bs, CHR ''b'']
      else if c = CHR 0x0C then [bs, CHR ''f'']
      else if (of_char c :: nat) < 32
        then [bs, CHR ''u'', CHR ''0'', CHR ''0'',
              hex_digit ((of_char c :: nat) div 16), hex_digit ((of_char c :: nat) mod 16)]
      else [c])"

definition dump_str :: "string \<Rightarrow> string" where
  "dump_str s = [dq] @ concat (map escape_char s) @ [dq]"

fun digits :: "nat \<Rightarrow> string" where
  "digits n = (if n < 10 then [digit n] else digits (n div 10) @ [digit (n mod 10)])"

declare digits.simps [simp del]

definition show_int :: "int \<Rightarrow> string" where
  "show_int i = (if i < 0 then CHR ''-'' # digits (nat (- i)) else digits (nat i))"

definition newline_indent :: "nat \<Rightarrow> string" where
  "newline_indent level = CHR 0x0A # replicate (2 * level) (CHR '' '')"

fun dumps :: "nat \<Rightarrow> json \<Rightarrow> string"
  and dump_items :: "nat \<Rightarrow> json list \<Rightarrow> string"
  and dump_members :: "nat \<Rightarrow> pydict \<Rightarrow> string" where
  "dumps l JNull = ''null''"
| "dumps l (JBool b) = (if b then ''true'' else ''false'')"
| "dumps l (JInt i) = show_int i"
| "dumps l (JFloat (PyFloat t)) = t"
| "dumps l (JStr s) = dump_str s"
| "dumps l (JList xs) =
     (if xs = [] then ''[]''
      else ''['' @ newline_indent (Suc l) @ dump_items (Suc l) xs @ newline_indent l @ '']'')"
| "dumps l (JObj kvs) =
     (if kvs = [] then ''{}''
      else ''{'' @ newline_indent (Suc l) @ dump_members (Suc l) kvs @ newline_indent l @ ''}'')"
| "dump_items l [] = []"
| "dump_items l (x # xs) =
     dumps l x @ (if xs = [] then [] else '','' @ newline_indent l @ dump_items l xs)"
| "dump_members l [] = []"
| "dump_members l ((k, v) # kvs) =
     dump_str k @ '': '' @ dumps l v
       @ (if kvs = [] then [] else '','' @ newline_indent l @ dump_members l kvs)"

definition json_dumps :: "json \<Rightarrow> string" where
  "json_dumps v = dumps 0 v"

text \<open>
  \<^verbatim>\<open>json.load\<close>: the decoder of the standard library, by recursive descent. The
  first argument of the three mutually recursive functions bounds the nesting depth
  still allowed; \<open>json_loads\<close> starts with the length of the text, which no nesting
  exceeds. NaN and Infinity, which the decoder also accepts, and \<^verbatim>\<open>\u\<close> escapes of
  code points from 256 on are outside the model: the text is rejected.
\<close>

definition is_ws :: "char \<Rightarrow> bool" where
  "is_ws c = (c = CHR '' '' \<or> c = CHR 0x09 \<or> c = CHR 0x0A \<or> c = CHR 0x0D)"

definition skip_ws :: "string \<Rightarrow> string" where
  "skip_ws s = dropWhile is_ws s"

definition is_digit :: "char \<Rightarrow> bool" where
  "is_digit c = (48 \<le> (of_char c :: nat) \<and> (of_char c :: nat) \<le> 57)"

definition hex_value :: "char \<Rightarrow> nat option" where
  "hex_value c =
     (let n = (of_char c :: nat) in
      if 48 \<le> n \<and> n \<le> 57 then Some (n - 48)
      else if 97 \<le> n \<and> n \<le> 102 then Some (n - 87)
      else if 65 \<le> n \<and> n \<le> 70 then Some (n - 55)
      else None)"

definition unescape :: "char \<Rightarrow> char option" where
  "unescape e =
     (if e = dq then Some dq
      else if e = bs then Some bs
      else if e = CHR ''/'' then Some (CHR ''/'')
      else if e = CHR ''b'' then Some (CHR 0x08)
      else if e = CHR ''f'' then Some (CHR 0x0C)
      else if e = CHR ''n'' then Some (CHR 0x0A)
      else if e = CHR ''r'' then Some (CHR 0x0D)
      else if e = CHR ''t'' then Some (CHR 0x09)
      else None)"

definition cons_char :: "char \<Rightarrow> (string \<times> string) option \<Rightarrow> (string \<times> string) option" where
  "cons_char c r = (case r of None \<Rightarrow> None | Some (str, rest) \<Rightarrow> Some (c # str, rest))"

text \<open>The characters of a string after its opening quote, up to the closing quote.\<close>

fun parse_chars :: "string \<Rightarrow> (string \<times> string) option" where
  "parse_chars [] = None"
| "parse_chars (c # cs) =
     (if c = dq then Some ([], cs)
      else if c = bs then
        (case cs of
           [] \<Rightarrow> None
         | e # cs' \<Rightarrow>
             if e = CHR ''u'' then
               (case cs' of
                  h1 # h2 # h3 # h4 # cs'' \<Rightarrow>
                    (case (hex_value h1, hex_value h2, hex_value h3, hex_value h4) of
                       (Some a, Some b, Some c, Some d) \<Rightarrow>
                         if a = 0 \<and> b = 0 then cons_char (char_of (16 * c + d)) (parse_chars cs'')
                         else None
                     | _ \<Rightarrow> None)
                | _ \<Rightarrow> None)
             else (case unescape e of None \<Rightarrow> None | Some x \<Rightarrow> cons_char x (parse_chars cs')))
      else if (of_char c :: nat) < 32 then None
      else cons_char c (parse_chars cs))"

definition digits_value :: "string \<Rightarrow> nat" where
  "digits_value ds = foldl (\<lambda>a c. 10 * a + ((of_char c :: nat) - 48)) 0 ds"

definition is_num_char :: "char \<Rightarrow> bool" where
  "is_num_char c = (is_digit c \<or> c = CHR ''-'' \<or> c = CHR ''+'' \<or> c = CHR ''.'' \<or> c = CHR ''e'' \<or> c = CHR ''E'')"

text \<open>The exponent part \<^verbatim>\<open>[eE][-+]?\d+\<close> and the part \<^verbatim>\<open>(\.\d+)?([eE][-+]?\d+)?\<close>
  of a number, when it is not empty.\<close>

definition valid_exp :: "string \<Rightarrow> bool" where
  "valid_exp e =
     (case e of
        [] \<Rightarrow> False
      | c # r \<Rightarrow>
          (c = CHR ''e'' \<or> c = CHR ''E'') \<and>
          (case r of
             [] \<Rightarrow> False
           | sg # r' \<Rightarrow>
               if sg = CHR ''+'' \<or> sg = CHR ''-'' then r' \<noteq> [] \<and> list_all is_digit r'
               else list_all is_digit r))"

definition valid_frac_exp :: "string \<Rightarrow> bool" where
  "valid_frac_exp fe =
     (case fe of
        [] \<Rightarrow> False
      | c # r \<Rightarrow>
          if c = CHR ''.'' then
            takeWhile is_digit r \<noteq> [] \<and>
            (dropWhile is_digit r = [] \<or> valid_exp (dropWhile is_digit r))
          else valid_exp fe)"

text \<open>
  The value of a number token \<^verbatim>\<open>-?(0|[1-9]\d*)(\.\d+)?([eE][-+]?\d+)?\<close>: an
  \<^verbatim>\<open>int\<close> without fraction and exponent, else the \<^verbatim>\<open>float\<close> the token denotes.
\<close>

definition number_of_token :: "string \<Rightarrow> json option" where
  "number_of_token tok =
     (let neg = (take 1 tok = ''-'');
          body = (if neg then drop 1 tok else tok);
          ip = takeWhile is_digit body;
          fe = dropWhile is_digit body
      in if ip = [] \<or> (1 < length ip \<and> hd ip = CHR ''0'') then None
         else if fe = [] then Some (JInt (if neg then - int (digits_value ip) else int (digits_value ip)))
         else if valid_frac_exp fe then Some (JFloat (PyFloat tok))
         else None)"

definition parse_number :: "string \<Rightarrow> (json \<times> string) option" where
  "parse_number s =
     (case number_of_token (takeWhile is_num_char s) of
        None \<Rightarrow> None
      | Some v \<Rightarrow> Some (v, dropWhile is_num_char s))"

definition parse_literal :: "string \<Rightarrow> json \<Rightarrow> string \<Rightarrow> (json \<times> string) option" where
  "parse_literal word v s =
     (if take (length word) s = word then Some (v, drop (length word) s) else None)"

text \<open>
  \<^verbatim>\<open>dict(pairs)\<close>, as the decoder builds an object: a key that comes again keeps
  its place and takes the later value.
\<close>

definition dict_set :: "pydict \<Rightarrow> string \<Rightarrow> json \<Rightarrow> pydict" where
  "dict_set d k v =
     (if k \<in> fst ` set d then map (\<lambda>(k', v'). if k' = k then (k', v) else (k', v')) d
      else d @ [(k, v)])"

definition dict_of_pairs :: "pydict \<Rightarrow> pydict" where
  "dict_of_pairs ps = foldl (\<lambda>d (k, v). dict_set d k v) [] ps"

text \<open>
  One step of each of the three functions, with the recursive calls as parameters:
  \<open>value_step\<close> scans one value, \<open>items_step\<close> the items of a list after its
  \<^verbatim>\<open>[\<close>, \<open>members_step\<close> the members of an object after its \<^verbatim>\<open>{\<close>.
\<close>

definition value_step ::
  "(string \<Rightarrow> (json list \<times> string) option) \<Rightarrow> (string \<Rightarrow> (pydict \<times> string) option) \<Rightarrow>
   string \<Rightarrow> (json \<times> string) option" where
  "value_step items members s =
     (case s of
        [] \<Rightarrow> None
      | c # cs \<Rightarrow>
          if c = dq then
            (case parse_chars cs of None \<Rightarrow> None | Some (str, rest) \<Rightarrow> Some (JStr str, rest))
          else if c = CHR ''['' then
            (case skip_ws cs of
               [] \<Rightarrow> None
             | d # ds \<Rightarrow>
                 if d = CHR '']'' then Some (JList [], ds)
                 else (case items (d # ds) of
                         None \<Rightarrow> None
                       | Some (xs, rest) \<Rightarrow> Some (JList xs, rest)))
          else if c = CHR ''{'' then
            (case skip_ws cs of
               [] \<Rightarrow> None
             | d # ds \<Rightarrow>
                 if d = CHR ''}'' then Some (JObj [], ds)
                 else (case members (d # ds) of
                         None \<Rightarrow> None
                       | Some (kvs, rest) \<Rightarrow> Some (JObj (dict_of_pairs kvs), rest)))
          else if c = CHR ''n'' then parse_literal ''null'' JNull s
          else if c = CHR ''t'' then parse_literal ''true'' (JBool True) s
          else if c = CHR ''f'' then parse_literal ''false'' (JBool False) s
          else parse_number s)"

definition items_step ::
  "(string \<Rightarrow> (json \<times> string) option) \<Rightarrow> (string \<Rightarrow> (json list \<times> string) option) \<Rightarrow>
   string \<Rightarrow> (json list \<times> string) option" where
  "items_step val items s =
     (case val s of
        None \<Rightarrow> None
      | Some (x, rest) \<Rightarrow>
          (case skip_ws rest of
             [] \<Rightarrow> None
           | d # ds \<Rightarrow>
               if d = CHR '']'' then Some ([x], ds)
               else if d = CHR '','' then
                 (case items (skip_ws ds) of
                    None \<Rightarrow> None
                  | Some (xs, rest') \<Rightarrow> Some (x # xs, rest'))
               else None))"

definition members_step ::
  "(string \<Rightarrow> (json \<times> string) option) \<Rightarrow> (string \<Rightarrow> (pydict \<times> string) option) \<Rightarrow>
   string \<Rightarrow> (pydict \<times> string) option" where
  "members_step val members s =
     (case s of
        [] \<Rightarrow> None
      | c # cs \<Rightarrow>
          if c \<noteq> dq then None
          else case parse_chars cs of
            None \<Rightarrow> None
          | Some (k, rest) \<Rightarrow>
              (case skip_ws rest of
                 [] \<Rightarrow> None
               | d # ds \<Rightarrow>
                   if d \<noteq> CHR '':'' then None
                   else case val (skip_ws ds) of
                     None \<Rightarrow> None
                   | Some (v, rest') \<Rightarrow>
                       (case skip_ws rest' of
                          [] \<Rightarrow> None
                        | d' # ds' \<Rightarrow>
                            if d' = CHR ''}'' then Some ([(k, v)], ds')
                            else if d' = CHR '','' then
                              (case members (skip_ws ds') of
                                 None \<Rightarrow> None
                               | Some (kvs, rest'') \<Rightarrow> Some ((k, v) # kvs, rest''))
                            else None)))"

fun parse_value :: "nat \<Rightarrow> string \<Rightarrow> (json \<times> string) option"
  and parse_items :: "nat \<Rightarrow> string \<Rightarrow> (json list \<times> string) option"
  and parse_members :: "nat \<Rightarrow> string \<Rightarrow> (pydict \<times> string) option" where
  "parse_value 0 s = None"
| "parse_value (Suc n) s = value_step (parse_items n) (parse_members n) s"
| "parse_items 0 s = None"
| "parse_items (Suc n) s = items_step (parse_value n) (parse_items n) s"
| "parse_members 0 s = None"
| "parse_members (Suc n) s = members_step (parse_value n) (parse_members n) s"

text \<open>\<^verbatim>\<open>json.load\<close> of a whole text: one value, white space around it, nothing else.
  \<open>None\<close> is the \<^verbatim>\<open>JSONDecodeError\<close>.\<close>

definition json_loads :: "string \<Rightarrow> json option" where
  "json_loads s =
     (case parse_value (length s) (skip_ws s) of
        None \<Rightarrow> None
      | Some (v, rest) \<Rightarrow> if skip_ws rest = [] then Some v else None)"

section \<open>The world outside the program\<close>

text \<open>
  What a run does to its surroundings is recorded in a trace: the calls of the logger
  (by the name after \<^verbatim>\<open>event=\<close>), the HTTP requests, the waits between attempts,
  the files opened, and the MongoDB client created, used and closed. What the
  surroundings answer is given in advance: the outcome of the n-th \<^verbatim>\<open>requests.get\<close>,
  the error of the n-th \<^verbatim>\<open>open\<close> if it has one, the outcome of the n-th run of the
  loader.
\<close>

datatype event =
    Log string
  | HttpGet string
  | Sleep nat
  | OpenWrite string
  | OpenRead string
  | ClientOpen string
  | InsertOne string string pydict
  | ClientClose

text \<open>\<open>Response status body\<close>: \<open>body\<close> is the value \<^verbatim>\<open>response.json()\<close> returns,
  \<open>None\<close> when it raises.\<close>

datatype http_outcome = RequestRaises pyerr | Response nat "json option"

text \<open>The constructor \<^verbatim>\<open>MongoClient(...)\<close> raises; or the lookup of the database or
  of the collection by name raises; or \<^verbatim>\<open>insert_one\<close> raises; or it returns a result
  whose \<^verbatim>\<open>inserted_id\<close> prints as the given text.\<close>

datatype mongo_outcome =
    ClientRaises pyerr
  | LookupRaises pyerr
  | InsertRaises pyerr
  | Inserted string

record world =
  trace :: "event list"
  http :: "nat \<Rightarrow> string \<Rightarrow> http_outcome"
  http_calls :: nat
  files :: "string \<rightharpoonup> string"
  open_error :: "nat \<Rightarrow> string \<Rightarrow> pyerr option"
  opens :: nat
  mongo :: "nat \<Rightarrow> mongo_outcome"
  mongo_calls :: nat

text \<open>The module's constants, read once from the environment.\<close>

record config =
  mongo_uri :: string
  api_key :: string
  db_name :: string
  collection_name :: string
  default_city :: string

definition getenv_default :: "environ \<Rightarrow> string \<Rightarrow> string \<Rightarrow> string" where
  "getenv_default env name d = (case env name of None \<Rightarrow> d | Some v \<Rightarrow> v)"

definition module_config :: "environ \<Rightarrow> pyerr + config" where
  "module_config env =
     bind_err (get_required_env env ''MONGO_URI'') (\<lambda>uri.
     bind_err (get_required_env env ''OPENWEATHER_API_KEY'') (\<lambda>key.
       Inr \<lparr>mongo_uri = uri, api_key = key,
            db_name = getenv_default env ''MONGO_DB_NAME'' ''clima_data'',
            collection_name = getenv_default env ''MONGO_COLLECTION_NAME'' ''clima_data'',
            default_city = getenv_default env ''CITY'' ''San Jose,CR''\<rparr>))"

definition emit :: "event \<Rightarrow> world \<Rightarrow> world" where
  "emit ev w = w\<lparr>trace := trace w @ [ev]\<rparr>"

definition logger :: "string \<Rightarrow> world \<Rightarrow> world" where
  "logger name w = emit (Log name) w"

section \<open>The tasks\<close>

text \<open>
  Every task has the same frame: the \<^verbatim>\<open>try\<close> block, \<^verbatim>\<open>except Exception\<close> that
  logs the error and raises it again, and \<^verbatim>\<open>finally\<close> that logs the time. The
  \<open>_fn\<close> constant of a task is the function under the decorator, the \<open>_try\<close>
  constant its \<^verbatim>\<open>try\<close> block.
\<close>

definition api_invalid_message :: string where
  "api_invalid_message =
     ''Respuesta vac'' @ [CHR 0xED] @ ''a o inv'' @ [CHR 0xE1] @ ''lida de la API.''"

definition weather_url :: "config \<Rightarrow> string \<Rightarrow> string" where
  "weather_url cfg ciudad =
     ''https://api.openweathermap.org/data/2.5/weather?q='' @ ciudad
       @ ''&appid='' @ api_key cfg @ ''&units=metric''"

definition extraer_try :: "config \<Rightarrow> string \<Rightarrow> world \<Rightarrow> (pyerr + pydict) \<times> world" where
  "extraer_try cfg ciudad w =
     (let url = weather_url cfg ciudad;
          w1 = logger ''extract_start'' w;
          w2 = emit (HttpGet url) (w1\<lparr>http_calls := Suc (http_calls w1)\<rparr>)
      in case http w (http_calls w) url of
           RequestRaises e \<Rightarrow> (Inl e, w2)
         | Response status body \<Rightarrow>
             if 400 \<le> status \<and> status < 600 then (Inl (HTTPError status), w2)
             else (case body of
                     None \<Rightarrow> (Inl JSONDecodeError, w2)
                   | Some (JObj data) \<Rightarrow>
                       if data = [] then (Inl (ValueError api_invalid_message), w2)
                       else (Inr data, logger ''extract_success'' w2)
                   | Some _ \<Rightarrow> (Inl (ValueError api_invalid_message), w2)))"

definition extraer_datos_clima_fn :: "config \<Rightarrow> string \<Rightarrow> world \<Rightarrow> (pyerr + pydict) \<times> world" where
  "extraer_datos_clima_fn cfg ciudad w =
     (case extraer_try cfg ciudad w of
        (Inr data, w') \<Rightarrow> (Inr data, logger ''extract_time'' w')
      | (Inl e, w') \<Rightarrow> (Inl e, logger ''extract_time'' (logger ''extract_error'' w')))"

definition transformar_datos_fn :: "clock \<Rightarrow> pydict \<Rightarrow> world \<Rightarrow> (pyerr + pydict) \<times> world" where
  "transformar_datos_fn clk data w =
     (let w1 = logger ''transform_start'' w
      in case transformar clk data of
           Inr registro \<Rightarrow> (Inr registro, logger ''transform_time'' (logger ''transform_success'' w1))
         | Inl e \<Rightarrow> (Inl e, logger ''transform_time'' (logger ''transform_error'' w1)))"

definition guardar_try :: "pydict \<Rightarrow> string \<Rightarrow> world \<Rightarrow> (pyerr + string) \<times> world" where
  "guardar_try registro json_path w =
     (let w1 = logger ''save_json_start'' w;
          w2 = emit (OpenWrite json_path) (w1\<lparr>opens := Suc (opens w1)\<rparr>)
      in case open_error w (opens w) json_path of
           Some e \<Rightarrow> (Inl e, w2)
         | None \<Rightarrow>
             (Inr json_path,
              logger ''save_json_success''
                (w2\<lparr>files := (files w2)(json_path \<mapsto> json_dumps (JObj registro))\<rparr>)))"

definition guardar_json_fn :: "pydict \<Rightarrow> string \<Rightarrow> world \<Rightarrow> (pyerr + string) \<times> world" where
  "guardar_json_fn registro json_path w =
     (case guardar_try registro json_path w of
        (Inr path, w') \<Rightarrow> (Inr path, logger ''save_json_time'' w')
      | (Inl e, w') \<Rightarrow> (Inl e, logger ''save_json_time'' (logger ''save_json_error'' w')))"

definition json_invalid_message :: string where
  "json_invalid_message =
     ''El JSON le'' @ [CHR 0xED] @ ''do est'' @ [CHR 0xE1] @ '' vac'' @ [CHR 0xED]
       @ ''o o no tiene formato de objeto.''"

definition leer_try :: "string \<Rightarrow> world \<Rightarrow> (pyerr + pydict) \<times> world" where
  "leer_try json_path w =
     (let w1 = logger ''read_json_start'' w;
          w2 = emit (OpenRead json_path) (w1\<lparr>opens := Suc (opens w1)\<rparr>)
      in case open_error w (opens w) json_path of
           Some e \<Rightarrow> (Inl e, w2)
         | None \<Rightarrow>
             (case files w json_path of
                None \<Rightarrow> (Inl (FileNotFoundError json_path), w2)
              | Some text \<Rightarrow>
                  (case json_loads text of
                     None \<Rightarrow> (Inl JSONDecodeError, w2)
                   | Some (JObj data) \<Rightarrow>
                       if data = [] then (Inl (ValueError json_invalid_message), w2)
                       else (Inr data, logger ''read_json_success'' w2)
                   | Some _ \<Rightarrow> (Inl (ValueError json_invalid_message), w2))))"

definition leer_json_fn :: "string \<Rightarrow> world \<Rightarrow> (pyerr + pydict) \<times> world" where
  "leer_json_fn json_path w =
     (case leer_try json_path w of
        (Inr data, w') \<Rightarrow> (Inr data, logger ''read_json_time'' w')
      | (Inl e, w') \<Rightarrow> (Inl e, logger ''read_json_time'' (logger ''read_json_error'' w')))"

text \<open>
  The \<^verbatim>\<open>try\<close> block of the loader. The second component of the result tells whether
  \<^verbatim>\<open>client\<close> was assigned, which \<^verbatim>\<open>finally\<close> tests with \<^verbatim>\<open>client is not None\<close>.
\<close>

definition cargar_try ::
  "config \<Rightarrow> pydict \<Rightarrow> world \<Rightarrow> ((pyerr + string) \<times> bool) \<times> world" where
  "cargar_try cfg data_from_json w =
     (let w0 = (logger ''load_start'' w)\<lparr>mongo_calls := Suc (mongo_calls w)\<rparr>;
          w1 = emit (ClientOpen (mongo_uri cfg)) w0;
          w2 = emit (InsertOne (db_name cfg) (collection_name cfg) data_from_json) w1
      in case mongo w (mongo_calls w) of
           ClientRaises e \<Rightarrow> ((Inl e, False), w0)
         | LookupRaises e \<Rightarrow> ((Inl e, True), w1)
         | InsertRaises e \<Rightarrow> ((Inl e, True), w2)
         | Inserted oid \<Rightarrow>
             ((Inr (''Documento insertado en MongoDB con _id='' @ oid), True),
              logger ''load_success'' w2))"

definition cargar_a_mongo_fn :: "config \<Rightarrow> pydict \<Rightarrow> world \<Rightarrow> (pyerr + string) \<times> world" where
  "cargar_a_mongo_fn cfg data_from_json w =
     (case cargar_try cfg data_from_json w of
        ((r, client), w') \<Rightarrow>
          (let w1 = (case r of Inl e \<Rightarrow> logger ''load_error'' w' | Inr v \<Rightarrow> w');
               w2 = (if client then emit ClientClose w1 else w1)
           in (r, logger ''load_time'' w2)))"

section \<open>Retries and the flow\<close>

text \<open>
  Modelled from the spec: the wrapper that runs a task under its retry policy is
  Prefect's task engine, which the decorator \<^verbatim>\<open>@task(retries=..., retry_delay_seconds=...)\<close>
  puts around the function and which is no part of the repository. Section 4.1:
  execute the unit of work; on failure wait and retry; a success ends the attempts and
  is returned; the failure of the last attempt is propagated unchanged. \<open>retries\<close> is
  the decorator's argument, the number of times a failed task is run again, so a task
  is attempted at most \<open>Suc retries\<close> times. The result carries the number of attempts
  made.
\<close>

fun run_with_retries ::
  "('w \<Rightarrow> 'w) \<Rightarrow> nat \<Rightarrow> ('w \<Rightarrow> ('e + 'a) \<times> 'w) \<Rightarrow> 'w \<Rightarrow> (('e + 'a) \<times> nat) \<times> 'w" where
  "run_with_retries wait 0 work w = (case work w of (r, w') \<Rightarrow> ((r, 1), w'))"
| "run_with_retries wait (Suc n) work w =
     (case work w of
        (Inr v, w') \<Rightarrow> ((Inr v, 1), w')
      | (Inl e, w') \<Rightarrow>
          (case run_with_retries wait n work (wait w') of
             ((r, k), w'') \<Rightarrow> ((r, Suc k), w'')))"

text \<open>\<^verbatim>\<open>@task(retries=r, retry_delay_seconds=d)\<close> around a function: the waits
  between the attempts are recorded in the trace.\<close>

definition task ::
  "nat \<Rightarrow> nat \<Rightarrow> (world \<Rightarrow> (pyerr + 'a) \<times> world) \<Rightarrow> world \<Rightarrow> ((pyerr + 'a) \<times> nat) \<times> world" where
  "task retries retry_delay_seconds work w =
     run_with_retries (emit (Sleep retry_delay_seconds)) retries work w"

text \<open>The five decorated tasks, as the flow calls them. \<^verbatim>\<open>@task(name="transformar_datos")\<close>
  gives no \<^verbatim>\<open>retries\<close>: the default is 0, the function runs once.\<close>

definition extraer_datos_clima ::
  "config \<Rightarrow> string \<Rightarrow> world \<Rightarrow> ((pyerr + pydict) \<times> nat) \<times> world" where
  "extraer_datos_clima cfg ciudad = task 3 5 (extraer_datos_clima_fn cfg ciudad)"

definition transformar_datos ::
  "clock \<Rightarrow> pydict \<Rightarrow> world \<Rightarrow> ((pyerr + pydict) \<times> nat) \<times> world" where
  "transformar_datos clk data = task 0 0 (transformar_datos_fn clk data)"

definition guardar_json ::
  "pydict \<Rightarrow> string \<Rightarrow> world \<Rightarrow> ((pyerr + string) \<times> nat) \<times> world" where
  "guardar_json registro json_path = task 2 2 (guardar_json_fn registro json_path)"

definition leer_json :: "string \<Rightarrow> world \<Rightarrow> ((pyerr + pydict) \<times> nat) \<times> world" where
  "leer_json json_path = task 2 2 (leer_json_fn json_path)"

definition cargar_a_mongo ::
  "config \<Rightarrow> pydict \<Rightarrow> world \<Rightarrow> ((pyerr + string) \<times> nat) \<times> world" where
  "cargar_a_mongo cfg data_from_json = task 3 5 (cargar_a_mongo_fn cfg data_from_json)"

text \<open>The \<^verbatim>\<open>try\<close> block of \<^verbatim>\<open>clima_flow\<close>: a task that ends in failure raises its
  exception in the flow, and the tasks after it are not called.\<close>

definition clima_flow_try ::
  "config \<Rightarrow> clock \<Rightarrow> string \<Rightarrow> string \<Rightarrow> world \<Rightarrow> (pyerr + unit) \<times> world" where
  "clima_flow_try cfg clk ciudad json_path w =
     (case extraer_datos_clima cfg ciudad (logger ''flow_start'' w) of
        ((Inl e, n), w1) \<Rightarrow> (Inl e, w1)
      | ((Inr data, n), w1) \<Rightarrow>
     (case transformar_datos clk data w1 of
        ((Inl e, n), w2) \<Rightarrow> (Inl e, w2)
      | ((Inr registro, n), w2) \<Rightarrow>
     (case guardar_json registro json_path w2 of
        ((Inl e, n), w3) \<Rightarrow> (Inl e, w3)
      | ((Inr ruta_json, n), w3) \<Rightarrow>
     (case leer_json ruta_json w3 of
        ((Inl e, n), w4) \<Rightarrow> (Inl e, w4)
      | ((Inr data_from_json, n), w4) \<Rightarrow>
     (case cargar_a_mongo cfg data_from_json w4 of
        ((Inl e, n), w5) \<Rightarrow> (Inl e, w5)
      | ((Inr resultado, n), w5) \<Rightarrow> (Inr (), logger ''flow_success'' w5))))))"

definition clima_flow ::
  "config \<Rightarrow> clock \<Rightarrow> string \<Rightarrow> string \<Rightarrow> world \<Rightarrow> (pyerr + unit) \<times> world" where
  "clima_flow cfg clk ciudad json_path w =
     (case clima_flow_try cfg clk ciudad json_path w of
        (Inr u, w') \<Rightarrow> (Inr u, logger ''flow_time'' w')
      | (Inl e, w') \<Rightarrow> (Inl e, logger ''flow_time'' (logger ''flow_error'' w')))"

text \<open>How often an event is in a trace: the attempts of a task are the occurrences of
  its start event.\<close>

definition occurrences :: "event \<Rightarrow> world \<Rightarrow> nat" where
  "occurrences ev w = length (filter (\<lambda>x. x = ev) (trace w))"

section \<open>Notions used to state the properties\<close>

text \<open>The state in which attempt number \<open>i\<close> (from 0) of a unit of work starts, when
  the attempts before it have failed and been waited for.\<close>

fun attempt_state :: "('w \<Rightarrow> 'w) \<Rightarrow> ('w \<Rightarrow> ('e + 'a) \<times> 'w) \<Rightarrow> 'w \<Rightarrow> nat \<Rightarrow> 'w" where
  "attempt_state wait work w 0 = w"
| "attempt_state wait work w (Suc i) = attempt_state wait work (wait (snd (work w))) i"





text \<open>The exception with which an answer of the API fails the request itself: the
  one \<^verbatim>\<open>requests.get\<close> raises, or the \<^verbatim>\<open>HTTPError\<close> of a 4xx or 5xx status.\<close>

definition api_failure :: "http_outcome \<Rightarrow> pyerr option" where
  "api_failure out =
     (case out of
        RequestRaises e \<Rightarrow> Some e
      | Response status body \<Rightarrow>
          if 400 \<le> status \<and> status < 600 then Some (HTTPError status) else None)"



section \<open>Example inputs\<close>

text \<open>A clock in the zone of Costa Rica (UTC-6) that accepts every integer epoch, the
  payload of scenario A, the same payload without \<^verbatim>\<open>coord\<close> and with an empty
  \<^verbatim>\<open>sys\<close>, a configuration, and worlds in which the API and the store answer as the
  scenarios say.\<close>

definition example_clock :: clock where
  "example_clock =
     \<lparr>utc_offset = (\<lambda>t. - 21600), range_error = (\<lambda>t. None),
      float_seconds = (\<lambda>f. Inl (External ''OverflowError'')),
      now_iso = ''2024-01-01T12:00:00.000000''\<rparr>"

definition payload_A :: pydict where
  "payload_A =
     [(''name'', JStr ''San Jose''),
      (''sys'', JObj [(''country'', JStr ''CR''), (''sunrise'', JInt 1700000000),
                      (''sunset'', JInt 1700040000)]),
      (''main'', JObj [(''temp'', JFloat (PyFloat ''22.1'')), (''feels_like'', JFloat (PyFloat ''21.5'')),
                       (''temp_min'', JInt 20), (''temp_max'', JInt 24),
                       (''humidity'', JInt 80), (''pressure'', JInt 1012)]),
      (''weather'', JList [JObj [(''description'', JStr ''clear sky''), (''icon'', JStr ''01d'')]]),
      (''clouds'', JObj [(''all'', JInt 5)]),
      (''coord'', JObj [(''lat'', JFloat (PyFloat ''9.93'')), (''lon'', JFloat (PyFloat ''-84.08''))])]"

definition payload_no_coord :: pydict where
  "payload_no_coord = butlast payload_A"


definition record_A :: pydict where
  "record_A =
     [(''ciudad'', JStr ''San Jose''), (''pais'', JStr ''CR''),
      (''temperatura'', JFloat (PyFloat ''22.1'')),
      (''sensacion_termica'', JFloat (PyFloat ''21.5'')),
      (''temp_min'', JInt 20), (''temp_max'', JInt 24),
      (''humedad'', JInt 80), (''presion'', JInt 1012),
      (''descripcion'', JStr ''clear sky''), (''icono'', JStr ''01d''),
      (''nubosidad'', JInt 5), (''viento_velocidad'', JInt 0),
      (''viento_direccion'', JInt 0), (''visibilidad'', JInt 0),
      (''amanecer'', JStr ''16:13:20''), (''atardecer'', JStr ''03:20:00''),
      (''coordenadas'', JObj [(''latitud'', JFloat (PyFloat ''9.93'')),
                              (''longitud'', JFloat (PyFloat ''-84.08''))]),
      (''timestamp'', JStr ''2024-01-01T12:00:00.000000'')]"

definition example_config :: config where
  "example_config =
     \<lparr>mongo_uri = ''mongodb://localhost:27017'', api_key = ''KEY'', db_name = ''clima_data'',
      collection_name = ''clima_data'', default_city = ''San Jose,CR''\<rparr>"

definition world_of :: "http_outcome \<Rightarrow> (nat \<Rightarrow> mongo_outcome) \<Rightarrow> world" where
  "world_of answer store =
     \<lparr>trace = [], http = (\<lambda>n url. answer), http_calls = 0, files = Map.empty,
      open_error = (\<lambda>n path. None), opens = 0, mongo = store, mongo_calls = 0\<rparr>"

definition world_503 :: world where
  "world_503 = world_of (Response 503 None) (\<lambda>n. Inserted ''65a1b2c3'')"

definition world_no_coord :: world where
  "world_no_coord = world_of (Response 200 (Some (JObj payload_no_coord))) (\<lambda>n. Inserted ''65a1b2c3'')"

definition store_second_try :: "nat \<Rightarrow> mongo_outcome" where
  "store_second_try n = (if n = 0 then InsertRaises (External ''AutoReconnect'') else Inserted ''65a1b2c3'')"

definition world_D :: world where
  "world_D = world_of (Response 200 (Some (JObj payload_A))) store_second_try"

text \<open>A unit of work over a counter: it fails while the counter is below \<open>k\<close>, and
  every attempt advances the counter.\<close>

definition flaky :: "nat \<Rightarrow> nat \<Rightarrow> (string + nat) \<times> nat" where
  "flaky k n = (if n < k then Inl ''down'' else Inr (10 * n), Suc n)"

text \<open>The world after an attempt of the extraction whose request failed: the start
  event, the request, the error event and the time event, and one more HTTP call.\<close>

definition after_failed_request :: "config \<Rightarrow> string \<Rightarrow> world \<Rightarrow> world" where
  "after_failed_request cfg ciudad w =
     logger ''extract_time'' (logger ''extract_error''
       (emit (HttpGet (weather_url cfg ciudad))
          ((logger ''extract_start'' w)\<lparr>http_calls := Suc (http_calls w)\<rparr>)))"

text \<open>
  The loader seen from outside: whether an attempt gets a client at all, the events of
  one attempt in order, and its result. They are what \<open>cargar_a_mongo_fn\<close> does
  (lemma \<open>cargar_fn_run\<close>).
\<close>

definition acquires :: "mongo_outcome \<Rightarrow> bool" where
  "acquires out = (case out of ClientRaises e \<Rightarrow> False | _ \<Rightarrow> True)"

definition loader_events :: "config \<Rightarrow> pydict \<Rightarrow> mongo_outcome \<Rightarrow> event list" where
  "loader_events cfg d out =
     (case out of
        ClientRaises e \<Rightarrow> [Log ''load_start'', Log ''load_error'', Log ''load_time'']
      | LookupRaises e \<Rightarrow>
          [Log ''load_start'', ClientOpen (mongo_uri cfg),
           Log ''load_error'', ClientClose, Log ''load_time'']
      | InsertRaises e \<Rightarrow>
          [Log ''load_start'', ClientOpen (mongo_uri cfg),
           InsertOne (db_name cfg) (collection_name cfg) d,
           Log ''load_error'', ClientClose, Log ''load_time'']
      | Inserted oid \<Rightarrow>
          [Log ''load_start'', ClientOpen (mongo_uri cfg),
           InsertOne (db_name cfg) (collection_name cfg) d,
           Log ''load_success'', ClientClose, Log ''load_time''])"

definition loader_result :: "mongo_outcome \<Rightarrow> pyerr + string" where
  "loader_result out =
     (case out of
        ClientRaises e \<Rightarrow> Inl e
      | LookupRaises e \<Rightarrow> Inl e
      | InsertRaises e \<Rightarrow> Inl e
      | Inserted oid \<Rightarrow> Inr (''Documento insertado en MongoDB con _id='' @ oid))"










section \<open>Properties of the configuration functions\<close>

lemma setdefault_keeps:
  "setdefault pe key val env = Inr env' \<Longrightarrow> env k = Some v \<Longrightarrow> env' k = Some v"
  by (auto simp: setdefault_def split: if_splits option.splits)

lemma setdefault_new:
  "setdefault pe key val env = Inr env' \<Longrightarrow> env' k = Some v \<Longrightarrow> env k = None \<Longrightarrow>
   k = key \<and> v = val"
  by (auto simp: setdefault_def split: if_splits option.splits)

lemma env_lines_keeps:
  "env k = Some v \<Longrightarrow> snd (env_lines pe ls env) k = Some v"
proof (induction ls arbitrary: env)
  case Nil
  then show ?case by simp
next
  case (Cons raw_line rest)
  show ?case
  proof (cases "env_entry raw_line")
    case None
    then show ?thesis using Cons by simp
  next
    case (Some kv)
    obtain key val where kv: "kv = (key, val)" by (cases kv)
    show ?thesis
    proof (cases "setdefault pe key val env")
      case (Inl e)
      then show ?thesis using Some kv Cons.prems by simp
    next
      case (Inr env')
      from setdefault_keeps[OF Inr Cons.prems] have "env' k = Some v" .
      from Cons.IH[of env', OF this] show ?thesis using Some kv Inr by simp
    qed
  qed
qed

lemma env_lines_new:
  "snd (env_lines pe ls env) k = Some v \<Longrightarrow> env k = None \<Longrightarrow>
   Some (k, v) \<in> env_entry ` set ls"
proof (induction ls arbitrary: env)
  case Nil
  then show ?case by simp
next
  case (Cons raw_line rest)
  show ?case
  proof (cases "env_entry raw_line")
    case None
    then show ?thesis using Cons by simp
  next
    case (Some kv)
    obtain key val where kv: "kv = (key, val)" by (cases kv)
    show ?thesis
    proof (cases "setdefault pe key val env")
      case (Inl e)
      then show ?thesis using Some kv Cons.prems by simp
    next
      case (Inr env')
      have fin: "snd (env_lines pe rest env') k = Some v"
        using Cons.prems(1) Some kv Inr by simp
      show ?thesis
      proof (cases "env' k")
        case None
        from Cons.IH[OF fin None] show ?thesis by auto
      next
        case (Some v')
        from env_lines_keeps[of env' k v' pe rest] Some fin have "v' = v" by simp
        with setdefault_new[OF Inr Some Cons.prems(2)] \<open>env_entry raw_line = Some kv\<close> kv
        show ?thesis by (auto simp: image_iff intro!: bexI[of _ raw_line])
      qed
    qed
  qed
qed

text \<open>
  C9. A variable that is defined before \<^verbatim>\<open>load_env_file\<close> runs has the same value
  afterwards, whatever the file holds and whether or not the loop is left by an
  exception; a variable the function defines was unset before and comes from a line of
  the file; and when the file does not exist the function returns normally and the
  environment is the one it started from.
\<close>

theorem load_env_file_frame:
  assumes "env k = Some v"
  shows "snd (load_env_file pe env_file env) k = Some v
         \<and> (\<forall>k' v'. snd (load_env_file pe env_file env) k' = Some v' \<and> env k' \<noteq> Some v'
                \<longrightarrow> env k' = None \<and> (\<exists>ls. env_file = Some ls \<and> Some (k', v') \<in> env_entry ` set ls))
         \<and> load_env_file pe None env = (Inr (), env)"
proof (intro conjI allI impI)
  show "snd (load_env_file pe env_file env) k = Some v"
    using assms by (simp add: load_env_file_def env_lines_keeps split: option.splits)
next
  fix k' v'
  assume h: "snd (load_env_file pe env_file env) k' = Some v' \<and> env k' \<noteq> Some v'"
  show "env k' = None"
  proof (cases "env k'")
    case None
    then show ?thesis .
  next
    case (Some w)
    then have "snd (load_env_file pe env_file env) k' = Some w"
      by (simp add: load_env_file_def env_lines_keeps split: option.splits)
    with h Some show ?thesis by simp
  qed
  then show "\<exists>ls. env_file = Some ls \<and> Some (k', v') \<in> env_entry ` set ls"
    using h by (cases env_file) (auto simp: load_env_file_def dest: env_lines_new)
next
  show "load_env_file pe None env = (Inr (), env)"
    by (simp add: load_env_file_def)
qed

theorem load_env_file_frame_witness:
  "[''MONGO_URI'' \<mapsto> ''mongodb://a''] ''MONGO_URI'' = Some ''mongodb://a''
   \<and> snd (load_env_file (\<lambda>k v. None)
           (Some [''# local'', ''MONGO_URI=mongodb://b'', '' CITY = \"Lima,PE\" ''])
           [''MONGO_URI'' \<mapsto> ''mongodb://a'']) ''MONGO_URI'' = Some ''mongodb://a''
   \<and> snd (load_env_file (\<lambda>k v. None)
           (Some [''# local'', ''MONGO_URI=mongodb://b'', '' CITY = \"Lima,PE\" ''])
           [''MONGO_URI'' \<mapsto> ''mongodb://a'']) ''CITY'' = Some ''Lima,PE''"
proof -
  have h: "[''MONGO_URI'' \<mapsto> ''mongodb://a''] ''MONGO_URI'' = Some ''mongodb://a''"
    by simp
  have e: "snd (load_env_file (\<lambda>k v. None)
           (Some [''# local'', ''MONGO_URI=mongodb://b'', '' CITY = \"Lima,PE\" ''])
           [''MONGO_URI'' \<mapsto> ''mongodb://a'']) ''CITY'' = Some ''Lima,PE''"
    by (simp add: load_env_file_def env_entry_def strip_def strip_by_def strip_char_def
        py_isspace_def split_eq_def setdefault_def)
  from load_env_file_frame[of "[''MONGO_URI'' \<mapsto> ''mongodb://a'']" "''MONGO_URI''"
      "''mongodb://a''" "\<lambda>k v. None"
      "Some [''# local'', ''MONGO_URI=mongodb://b'', '' CITY = \"Lima,PE\" '']"] h e
  show ?thesis by blast
qed

text \<open>
  C10. \<^verbatim>\<open>get_required_env\<close> returns a value exactly when the variable is set to a
  non-empty string, and that value is the variable's; when it is unset or empty the
  result is the \<^verbatim>\<open>ValueError\<close> naming the variable.
\<close>

theorem get_required_env_iff:
  "(get_required_env env var_name = Inr v \<longleftrightarrow> env var_name = Some v \<and> v \<noteq> []) \<and>
   (env var_name = None \<or> env var_name = Some [] \<longleftrightarrow>
      get_required_env env var_name =
        Inl (ValueError (''Variable de entorno requerida no definida: '' @ var_name)))"
  by (auto simp: get_required_env_def split: option.splits)

section \<open>Properties of the retry wrapper\<close>

lemma retry_success:
  "k \<le> retries \<Longrightarrow> \<forall>i<k. isl (fst (work (attempt_state wait work w i))) \<Longrightarrow>
   work (attempt_state wait work w k) = (Inr v, w') \<Longrightarrow>
   run_with_retries wait retries work w = ((Inr v, Suc k), w')"
proof (induction retries arbitrary: w k)
  case 0
  then show ?case by simp
next
  case (Suc n)
  show ?case
  proof (cases k)
    case 0
    with Suc.prems show ?thesis by simp
  next
    case (Suc k')
    from Suc.prems(2) Suc have "isl (fst (work w))" by force
    then obtain e w1 where w1: "work w = (Inl e, w1)"
      by (cases "work w") (auto simp: isl_def)
    have a: "k' \<le> n" using Suc.prems(1) Suc by simp
    have b: "\<forall>i<k'. isl (fst (work (attempt_state wait work (wait w1) i)))"
      using Suc.prems(2) Suc w1 by force
    have c: "work (attempt_state wait work (wait w1) k') = (Inr v, w')"
      using Suc.prems(3) Suc w1 by simp
    from Suc.IH[OF a b c] show ?thesis using w1 Suc by simp
  qed
qed

lemma retry_exhausted:
  "\<forall>i\<le>retries. isl (fst (work (attempt_state wait work w i))) \<Longrightarrow>
   run_with_retries wait retries work w =
     ((fst (work (attempt_state wait work w retries)), Suc retries),
      snd (work (attempt_state wait work w retries)))"
proof (induction retries arbitrary: w)
  case 0
  then show ?case by (simp split: prod.splits)
next
  case (Suc n)
  from Suc.prems have "isl (fst (work w))" by force
  then obtain e w1 where w1: "work w = (Inl e, w1)"
    by (cases "work w") (auto simp: isl_def)
  have b: "\<forall>i\<le>n. isl (fst (work (attempt_state wait work (wait w1) i)))"
    using Suc.prems w1 by force
  from Suc.IH[OF b] show ?case using w1 by simp
qed

lemma run_with_retries_preserves:
  assumes "\<And>w. f (snd (work w)) = f w" and "\<And>w. f (wait w) = f w"
  shows "f (snd (run_with_retries wait n work w)) = f w"
proof (induction n arbitrary: w)
  case 0
  then show ?case using assms(1)[of w] by (auto split: prod.splits)
next
  case (Suc n)
  obtain r w1 where w1: "work w = (r, w1)" by (cases "work w")
  have f1: "f w1 = f w" using assms(1)[of w] w1 by simp
  show ?case
  proof (cases r)
    case (Inl e)
    obtain r2 k w2 where w2: "run_with_retries wait n work (wait w1) = ((r2, k), w2)"
      by (cases "run_with_retries wait n work (wait w1)") auto
    from Suc.IH[of "wait w1"] w2 have "f w2 = f (wait w1)" by simp
    with assms(2)[of w1] f1 show ?thesis using w1 Inl w2 by simp
  next
    case (Inr v)
    with w1 f1 show ?thesis by simp
  qed
qed

text \<open>
  C1. Under a policy of at most \<open>N = Suc retries\<close> attempts: when the first \<open>k < N\<close>
  attempts fail and the next one succeeds, the wrapper makes \<open>k + 1\<close> attempts and
  returns that success and the state it left; when all \<open>N\<close> attempts fail, it makes
  \<open>N\<close> attempts and its result is the failure of the last attempt, as that attempt
  raised it.
\<close>

theorem retry_policy:
  "(k < Suc retries \<and> (\<forall>i<k. isl (fst (work (attempt_state wait work w i))))
      \<and> work (attempt_state wait work w k) = (Inr v, w')
    \<longrightarrow> run_with_retries wait retries work w = ((Inr v, Suc k), w'))
   \<and> ((\<forall>i<Suc retries. isl (fst (work (attempt_state wait work w i))))
    \<longrightarrow> run_with_retries wait retries work w =
          ((fst (work (attempt_state wait work w retries)), Suc retries),
           snd (work (attempt_state wait work w retries))))"
proof (intro conjI impI)
  assume "k < Suc retries \<and> (\<forall>i<k. isl (fst (work (attempt_state wait work w i))))
      \<and> work (attempt_state wait work w k) = (Inr v, w')"
  then show "run_with_retries wait retries work w = ((Inr v, Suc k), w')"
    using retry_success[of k retries work wait w v w'] by simp
next
  assume "\<forall>i<Suc retries. isl (fst (work (attempt_state wait work w i)))"
  then show "run_with_retries wait retries work w =
          ((fst (work (attempt_state wait work w retries)), Suc retries),
           snd (work (attempt_state wait work w retries)))"
    using retry_exhausted[of retries work wait w] by (simp add: less_Suc_eq_le)
qed

theorem retry_policy_witness:
  "run_with_retries id 3 (flaky 2) 0 = ((Inr 20, 3), 3)
   \<and> run_with_retries id 3 (flaky 7) 0 = ((Inl ''down'', 4), 4)"
proof -
  have s: "attempt_state id (flaky k) 0 i = i" for k i
  proof -
    have "attempt_state id (flaky k) n i = n + i" for n
      by (induction i arbitrary: n) (simp_all add: flaky_def)
    then show ?thesis by simp
  qed
  have a: "(2::nat) < Suc 3 \<and> (\<forall>i<2. isl (fst (flaky 2 (attempt_state id (flaky 2) 0 i))))
      \<and> flaky 2 (attempt_state id (flaky 2) 0 2) = (Inr 20, 3)"
    by (simp add: s flaky_def)
  have b: "\<forall>i<Suc 3. isl (fst (flaky 7 (attempt_state id (flaky 7) 0 i)))"
    by (simp add: s flaky_def)
  from retry_policy[of 2 3 "flaky 2" id 0 20 3] a
  have 1: "run_with_retries id 3 (flaky 2) 0 = ((Inr 20, 3), 3)"
    by (simp add: eval_nat_numeral)
  from retry_policy[of 0 3 "flaky 7" id 0] b
  have 2: "run_with_retries id 3 (flaky 7) 0 = ((Inl ''down'', 4), 4)"
    by (simp add: s flaky_def eval_nat_numeral)
  from 1 2 show ?thesis by simp
qed

section \<open>Properties of the transformation\<close>


lemma collect_map_Inr: "collect (map (\<lambda>(k, v). (k, Inr v)) r) = Inr r"
  by (induction r) auto














lemma transformar_validar:
  "validar data = Some e \<Longrightarrow> transformar clk data = Inl e"
  by (simp add: transformar_def)


lemma join_contains: "x \<in> set xs \<Longrightarrow> \<exists>a b. join sep xs = a @ x @ b"
proof (induction sep xs rule: join.induct)
  case (1 sep)
  then show ?case by simp
next
  case (2 sep y)
  then have "join sep [y] = [] @ x @ []" by simp
  then show ?case by blast
next
  case (3 sep y z zs)
  show ?case
  proof (cases "x = y")
    case True
    then have "join sep (y # z # zs) = [] @ x @ (sep @ join sep (z # zs))" by simp
    then show ?thesis by blast
  next
    case False
    with 3 obtain a b where "join sep (z # zs) = a @ x @ b" by auto
    then have "join sep (y # z # zs) = (y @ sep @ a) @ x @ b" by simp
    then show ?thesis by blast
  qed
qed

lemma missing_message_lists:
  assumes "k \<in> set missing"
  shows "\<exists>a b. missing_message missing = a @ [CHR 0x27] @ k @ [CHR 0x27] @ b"
proof -
  from assms have "[CHR 0x27] @ k @ [CHR 0x27] \<in> set (map (\<lambda>k. [CHR 0x27] @ k @ [CHR 0x27]) missing)"
    by auto
  from join_contains[OF this, of "'', ''"] obtain a b where
    "join '', '' (map (\<lambda>k. [CHR 0x27] @ k @ [CHR 0x27]) missing) = a @ ([CHR 0x27] @ k @ [CHR 0x27]) @ b"
    by blast
  then have "missing_message missing =
     (''Faltan claves requeridas en la respuesta: '' @ ''['' @ a) @ [CHR 0x27] @ k @ [CHR 0x27] @ (b @ '']'')"
    by (simp add: missing_message_def repr_keys_def)
  then show ?thesis by blast
qed

lemma task0: "task 0 d work w = ((fst (work w), 1), snd (work w))"
  by (simp add: task_def split: prod.splits)

lemma occurrences_logger:
  "occurrences ev (logger name w) = (if ev = Log name then Suc (occurrences ev w) else occurrences ev w)"
  by (auto simp: occurrences_def logger_def emit_def)

lemma occurrences_emit:
  "occurrences ev (emit x w) = (if ev = x then Suc (occurrences ev w) else occurrences ev w)"
  by (auto simp: occurrences_def emit_def)

text \<open>
  C3. A payload that lacks a required top-level key fails the transformation with the
  \<^verbatim>\<open>ValueError\<close> that lists the missing keys, and the task, which has no retries,
  runs the function once: one attempt, one \<^verbatim>\<open>transform_start\<close> in the trace.
\<close>

theorem transformer_runs_once:
  assumes "missing_keys data \<noteq> []"
  shows "transformar_datos clk data w =
           ((Inl (ValueError (missing_message (missing_keys data))), 1),
            logger ''transform_time'' (logger ''transform_error'' (logger ''transform_start'' w)))
         \<and> occurrences (Log ''transform_start'') (snd (transformar_datos clk data w))
             = Suc (occurrences (Log ''transform_start'') w)"
proof -
  from assms have "validar data = Some (ValueError (missing_message (missing_keys data)))"
    by (simp add: validar_def)
  then have "transformar clk data = Inl (ValueError (missing_message (missing_keys data)))"
    by (rule transformar_validar)
  then show ?thesis
    by (simp add: transformar_datos_def task0 transformar_datos_fn_def occurrences_logger)
qed

theorem transformer_runs_once_witness:
  "missing_keys payload_no_coord \<noteq> []
   \<and> fst (transformar_datos example_clock payload_no_coord world_503)
       = (Inl (ValueError ''Faltan claves requeridas en la respuesta: ['coord']''), 1)
   \<and> occurrences (Log ''transform_start'')
        (snd (transformar_datos example_clock payload_no_coord world_503)) = 1"
proof -
  have m: "missing_keys payload_no_coord = [''coord'']"
    by (simp add: missing_keys_def payload_no_coord_def payload_A_def required_top_keys_def)
  then have h: "missing_keys payload_no_coord \<noteq> []" by simp
  have o: "occurrences (Log ''transform_start'') world_503 = 0"
    by (simp add: occurrences_def world_503_def world_of_def)
  from transformer_runs_once[OF h, of example_clock world_503] m o h
  show ?thesis by (simp add: missing_message_def repr_keys_def occurrences_logger)
qed

lemma mongo_calls_logger [simp]: "mongo_calls (logger name w) = mongo_calls w"
  by (simp add: logger_def emit_def)

lemma mongo_calls_emit [simp]: "mongo_calls (emit ev w) = mongo_calls w"
  by (simp add: emit_def)

lemma extraer_fn_mongo_calls:
  "mongo_calls (snd (extraer_datos_clima_fn cfg ciudad w)) = mongo_calls w"
  by (simp add: extraer_datos_clima_fn_def extraer_try_def Let_def
      split: http_outcome.splits option.splits json.splits prod.splits sum.splits)

lemma extraer_mongo_calls:
  "mongo_calls (snd (extraer_datos_clima cfg ciudad w)) = mongo_calls w"
  unfolding extraer_datos_clima_def task_def
  by (rule run_with_retries_preserves) (simp_all add: extraer_fn_mongo_calls)

lemma transformar_datos_failure:
  "transformar clk data = Inl e \<Longrightarrow>
   transformar_datos clk data w =
     ((Inl e, 1), logger ''transform_time'' (logger ''transform_error'' (logger ''transform_start'' w)))"
  by (simp add: transformar_datos_def task0 transformar_datos_fn_def)

lemma flow_transform_failure:
  assumes "extraer_datos_clima cfg ciudad (logger ''flow_start'' w) = ((Inr data, n), w1)"
    and "transformar clk data = Inl e"
  shows "clima_flow cfg clk ciudad json_path w =
           (Inl e, logger ''flow_time'' (logger ''flow_error''
              (logger ''transform_time'' (logger ''transform_error'' (logger ''transform_start'' w1)))))"
  using assms by (simp add: clima_flow_def clima_flow_try_def transformar_datos_failure)

text \<open>
  C4. When the payload the extraction returned lacks a required top-level key, or its
  \<^verbatim>\<open>weather\<close> list is empty, the transformation raises a \<^verbatim>\<open>ValueError\<close>. With keys
  missing, its message is the fixed text followed by the list of exactly the missing
  keys, each between quotes; with all keys present and an empty list, it is the message
  about \<^verbatim>\<open>weather\<close>. The flow ends with that exception, after the three log calls of
  the transformation and its own two, and the loader has not been called.
\<close>

theorem validation_failure_stops_flow:
  assumes "missing_keys data \<noteq> [] \<or> map_of data ''weather'' = Some (JList [])"
    and "extraer_datos_clima cfg ciudad (logger ''flow_start'' w) = ((Inr data, n), w1)"
  shows "\<exists>msg. transformar clk data = Inl (ValueError msg)
           \<and> (if missing_keys data \<noteq> []
               then msg = missing_message (missing_keys data)
                    \<and> set (missing_keys data) = {k. k \<in> set required_top_keys \<and> k \<notin> fst ` set data}
                    \<and> (\<forall>k. k \<in> set required_top_keys \<and> k \<notin> fst ` set data
                          \<longrightarrow> (\<exists>a b. msg = a @ [CHR 0x27] @ k @ [CHR 0x27] @ b))
               else msg = weather_message)
           \<and> clima_flow cfg clk ciudad json_path w =
               (Inl (ValueError msg),
                logger ''flow_time'' (logger ''flow_error''
                  (logger ''transform_time'' (logger ''transform_error''
                    (logger ''transform_start'' w1)))))
           \<and> mongo_calls (snd (clima_flow cfg clk ciudad json_path w)) = mongo_calls w"
proof -
  define msg where
    "msg = (if missing_keys data \<noteq> [] then missing_message (missing_keys data) else weather_message)"
  have v: "validar data = Some (ValueError msg)"
    using assms(1) by (auto simp: validar_def msg_def)
  then have t: "transformar clk data = Inl (ValueError msg)"
    by (rule transformar_validar)
  have s: "set (missing_keys data) = {k. k \<in> set required_top_keys \<and> k \<notin> fst ` set data}"
    by (auto simp: missing_keys_def)
  have l: "\<forall>k. k \<in> set required_top_keys \<and> k \<notin> fst ` set data
        \<longrightarrow> (\<exists>a b. missing_message (missing_keys data) = a @ [CHR 0x27] @ k @ [CHR 0x27] @ b)"
    using missing_message_lists[of _ "missing_keys data"] s by blast
  have f: "clima_flow cfg clk ciudad json_path w =
               (Inl (ValueError msg),
                logger ''flow_time'' (logger ''flow_error''
                  (logger ''transform_time'' (logger ''transform_error''
                    (logger ''transform_start'' w1)))))"
    by (rule flow_transform_failure[OF assms(2) t])
  have "mongo_calls w1 = mongo_calls w"
    using extraer_mongo_calls[of cfg ciudad "logger ''flow_start'' w"] assms(2) by simp
  then have m: "mongo_calls (snd (clima_flow cfg clk ciudad json_path w)) = mongo_calls w"
    by (simp add: f)
  show ?thesis
  proof (intro exI[of _ msg] conjI)
    show "transformar clk data = Inl (ValueError msg)" by (rule t)
    show "if missing_keys data \<noteq> []
               then msg = missing_message (missing_keys data)
                    \<and> set (missing_keys data) = {k. k \<in> set required_top_keys \<and> k \<notin> fst ` set data}
                    \<and> (\<forall>k. k \<in> set required_top_keys \<and> k \<notin> fst ` set data
                          \<longrightarrow> (\<exists>a b. msg = a @ [CHR 0x27] @ k @ [CHR 0x27] @ b))
               else msg = weather_message"
      using s l by (simp add: msg_def)
    show "clima_flow cfg clk ciudad json_path w =
               (Inl (ValueError msg),
                logger ''flow_time'' (logger ''flow_error''
                  (logger ''transform_time'' (logger ''transform_error''
                    (logger ''transform_start'' w1)))))" by (rule f)
    show "mongo_calls (snd (clima_flow cfg clk ciudad json_path w)) = mongo_calls w" by (rule m)
  qed
qed

lemma extraer_fn_success:
  "http w (http_calls w) (weather_url cfg ciudad) = Response status (Some (JObj data)) \<Longrightarrow>
   \<not> (400 \<le> status \<and> status < 600) \<Longrightarrow> data \<noteq> [] \<Longrightarrow>
   extraer_datos_clima_fn cfg ciudad w =
     (Inr data,
      logger ''extract_time'' (logger ''extract_success''
        (emit (HttpGet (weather_url cfg ciudad))
          ((logger ''extract_start'' w)\<lparr>http_calls := Suc (http_calls w)\<rparr>))))"
  by (simp add: extraer_datos_clima_fn_def extraer_try_def Let_def logger_def emit_def)

lemma extraer_first_try:
  "extraer_datos_clima_fn cfg ciudad w = (Inr data, w') \<Longrightarrow>
   extraer_datos_clima cfg ciudad w = ((Inr data, 1), w')"
  by (simp add: extraer_datos_clima_def task_def eval_nat_numeral)

theorem validation_failure_stops_flow_witness:
  "missing_keys payload_no_coord \<noteq> []
   \<and> fst (extraer_datos_clima example_config ''San Jose,CR'' (logger ''flow_start'' world_no_coord))
       = (Inr payload_no_coord, 1)
   \<and> transformar example_clock payload_no_coord
       = Inl (ValueError ''Faltan claves requeridas en la respuesta: ['coord']'')
   \<and> fst (clima_flow example_config example_clock ''San Jose,CR'' ''clima_data.json'' world_no_coord)
       = Inl (ValueError ''Faltan claves requeridas en la respuesta: ['coord']'')
   \<and> mongo_calls (snd (clima_flow example_config example_clock ''San Jose,CR'' ''clima_data.json''
        world_no_coord)) = 0"
proof -
  have m: "missing_keys payload_no_coord = [''coord'']"
    by (simp add: missing_keys_def payload_no_coord_def payload_A_def required_top_keys_def)
  then have h: "missing_keys payload_no_coord \<noteq> [] \<or> map_of payload_no_coord ''weather'' = Some (JList [])"
    by simp
  have ne: "payload_no_coord \<noteq> []" by (simp add: payload_no_coord_def payload_A_def)
  have "http (logger ''flow_start'' world_no_coord) (http_calls (logger ''flow_start'' world_no_coord))
          (weather_url example_config ''San Jose,CR'') = Response 200 (Some (JObj payload_no_coord))"
    by (simp add: world_no_coord_def world_of_def logger_def emit_def)
  from extraer_first_try[OF extraer_fn_success[OF this _ ne]]
  obtain w1 where e: "extraer_datos_clima example_config ''San Jose,CR''
      (logger ''flow_start'' world_no_coord) = ((Inr payload_no_coord, 1), w1)" by simp
  have z: "mongo_calls world_no_coord = 0" by (simp add: world_no_coord_def world_of_def)
  from validation_failure_stops_flow[OF h e, of example_clock "''clima_data.json''"]
  obtain msg where t: "transformar example_clock payload_no_coord = Inl (ValueError msg)"
    and i: "if missing_keys payload_no_coord \<noteq> []
               then msg = missing_message (missing_keys payload_no_coord)
                    \<and> set (missing_keys payload_no_coord)
                        = {k. k \<in> set required_top_keys \<and> k \<notin> fst ` set payload_no_coord}
                    \<and> (\<forall>k. k \<in> set required_top_keys \<and> k \<notin> fst ` set payload_no_coord
                          \<longrightarrow> (\<exists>a b. msg = a @ [CHR 0x27] @ k @ [CHR 0x27] @ b))
               else msg = weather_message"
    and f: "fst (clima_flow example_config example_clock ''San Jose,CR'' ''clima_data.json''
               world_no_coord) = Inl (ValueError msg)"
    and c: "mongo_calls (snd (clima_flow example_config example_clock ''San Jose,CR''
               ''clima_data.json'' world_no_coord)) = mongo_calls world_no_coord"
    by force
  from i m have "msg = missing_message [''coord'']" by simp
  then have msg: "msg = ''Faltan claves requeridas en la respuesta: ['coord']''"
    by (simp add: missing_message_def repr_keys_def)
  from m have 1: "missing_keys payload_no_coord \<noteq> []" by simp
  from e have 2: "fst (extraer_datos_clima example_config ''San Jose,CR''
      (logger ''flow_start'' world_no_coord)) = (Inr payload_no_coord, 1)" by simp
  from 1 2 t f c z msg show ?thesis by simp
qed




























section \<open>Properties of the extraction\<close>

lemma extraer_fn_failure:
  assumes "api_failure (http w (http_calls w) (weather_url cfg ciudad)) = Some e"
  shows "extraer_datos_clima_fn cfg ciudad w = (Inl e, after_failed_request cfg ciudad w)"
  using assms
  by (cases "http w (http_calls w) (weather_url cfg ciudad)")
     (auto simp: api_failure_def extraer_datos_clima_fn_def extraer_try_def Let_def
        after_failed_request_def logger_def emit_def split: if_splits)

lemma after_failed_request_fields:
  "http (after_failed_request cfg ciudad w) = http w"
  "http_calls (after_failed_request cfg ciudad w) = Suc (http_calls w)"
  "occurrences (Log ''extract_start'') (after_failed_request cfg ciudad w)
     = Suc (occurrences (Log ''extract_start'') w)"
  "occurrences (Log ''transform_start'') (after_failed_request cfg ciudad w)
     = occurrences (Log ''transform_start'') w"
  by (simp_all add: after_failed_request_def logger_def emit_def occurrences_def)

lemma emit_fields:
  "http (emit ev w) = http w" "http_calls (emit ev w) = http_calls w"
  by (simp_all add: emit_def)

lemma failed_attempts_state:
  assumes "\<forall>i<n. api_failure (http w (http_calls w + i) (weather_url cfg ciudad)) = Some (err i)"
  shows "http (attempt_state (emit (Sleep d)) (extraer_datos_clima_fn cfg ciudad) w n) = http w
    \<and> http_calls (attempt_state (emit (Sleep d)) (extraer_datos_clima_fn cfg ciudad) w n)
        = http_calls w + n
    \<and> occurrences (Log ''extract_start'')
          (attempt_state (emit (Sleep d)) (extraer_datos_clima_fn cfg ciudad) w n)
        = occurrences (Log ''extract_start'') w + n
    \<and> occurrences (Log ''transform_start'')
          (attempt_state (emit (Sleep d)) (extraer_datos_clima_fn cfg ciudad) w n)
        = occurrences (Log ''transform_start'') w"
  using assms
proof (induction n arbitrary: w err)
  case 0
  then show ?case by simp
next
  case (Suc n)
  define w1 where "w1 = emit (Sleep d) (after_failed_request cfg ciudad w)"
  from Suc.prems have "api_failure (http w (http_calls w) (weather_url cfg ciudad)) = Some (err 0)"
    by force
  from extraer_fn_failure[OF this]
  have st: "attempt_state (emit (Sleep d)) (extraer_datos_clima_fn cfg ciudad) w (Suc n)
      = attempt_state (emit (Sleep d)) (extraer_datos_clima_fn cfg ciudad) w1 n"
    by (simp add: w1_def)
  have f: "http w1 = http w" "http_calls w1 = Suc (http_calls w)"
    "occurrences (Log ''extract_start'') w1 = Suc (occurrences (Log ''extract_start'') w)"
    "occurrences (Log ''transform_start'') w1 = occurrences (Log ''transform_start'') w"
    by (simp_all add: w1_def emit_fields after_failed_request_fields occurrences_emit)
  have "\<forall>i<n. api_failure (http w1 (http_calls w1 + i) (weather_url cfg ciudad))
      = Some (err (Suc i))"
    using Suc.prems f by force
  from Suc.IH[OF this] show ?case unfolding st by (simp add: f)
qed

lemma extraction_exhausted:
  assumes "\<forall>i<4. api_failure (http w (http_calls w + i) (weather_url cfg ciudad)) = Some (err i)"
  shows "\<exists>w'. extraer_datos_clima cfg ciudad w = ((Inl (err 3), 4), w')
     \<and> http_calls w' = http_calls w + 4
     \<and> occurrences (Log ''extract_start'') w' = occurrences (Log ''extract_start'') w + 4
     \<and> occurrences (Log ''transform_start'') w' = occurrences (Log ''transform_start'') w"
proof -
  let ?st = "attempt_state (emit (Sleep 5)) (extraer_datos_clima_fn cfg ciudad) w"
  have fs: "http (?st n) = http w \<and> http_calls (?st n) = http_calls w + n
      \<and> occurrences (Log ''extract_start'') (?st n) = occurrences (Log ''extract_start'') w + n
      \<and> occurrences (Log ''transform_start'') (?st n) = occurrences (Log ''transform_start'') w"
    if "n \<le> 4" for n
    using failed_attempts_state[of n w cfg ciudad err 5] assms that by simp
  have fl: "extraer_datos_clima_fn cfg ciudad (?st n)
      = (Inl (err n), after_failed_request cfg ciudad (?st n))" if "n < 4" for n
    using extraer_fn_failure[of "?st n" cfg ciudad "err n"] fs[of n] assms that by simp
  then have "\<forall>i\<le>3. isl (fst (extraer_datos_clima_fn cfg ciudad (?st i)))" by simp
  from retry_exhausted[OF this]
  have "extraer_datos_clima cfg ciudad w
      = ((Inl (err 3), 4), after_failed_request cfg ciudad (?st 3))"
    by (simp add: extraer_datos_clima_def task_def fl)
  then show ?thesis using fs[of 3] by (simp add: after_failed_request_fields)
qed

text \<open>
  C2, as stated, fails: \<^verbatim>\<open>retries=3\<close> allows three runs after the first one. With an
  API that answers 503 every time, the extraction is attempted four times, not three.
\<close>

theorem extraction_fails_at_three_counterexample:
  "fst (extraer_datos_clima example_config ''San Jose,CR'' world_503) = (Inl (HTTPError 503), 4)
   \<and> http_calls (snd (clima_flow example_config example_clock ''San Jose,CR'' ''clima_data.json''
        world_503)) = 4
   \<and> occurrences (Log ''extract_start'')
        (snd (clima_flow example_config example_clock ''San Jose,CR'' ''clima_data.json''
           world_503)) = 4"
  by (simp add: clima_flow_def clima_flow_try_def extraer_datos_clima_def task_def
      eval_nat_numeral extraer_datos_clima_fn_def extraer_try_def Let_def world_503_def
      world_of_def logger_def emit_def occurrences_def)

lemma logger_fields:
  "http (logger name w) = http w" "http_calls (logger name w) = http_calls w"
  by (simp_all add: logger_def emit_def)

lemma after_failed_request_http:
  "http (emit (Sleep d) (after_failed_request cfg ciudad s)) = http s"
  "http_calls (emit (Sleep d) (after_failed_request cfg ciudad s)) = Suc (http_calls s)"
  by (simp_all add: emit_fields after_failed_request_fields)

text \<open>
  C2, amended. When the API fails the first four requests of a run, the extraction
  task makes exactly four attempts (the first and three retries), and the flow ends with
  the exception of the fourth request, unchanged. Nothing else happens in the run: the
  trace is the flow start, the four attempts with a wait of five seconds between them,
  the flow error and the flow time, so neither the transformation nor any later stage
  is started, no file is opened or written and the store is not called.
\<close>

theorem extraction_exhausts_retries:
  assumes "\<forall>i<4. api_failure (http w (http_calls w + i) (weather_url cfg ciudad)) = Some (err i)"
  shows "fst (extraer_datos_clima cfg ciudad w) = (Inl (err 3), 4)
     \<and> clima_flow cfg clk ciudad json_path w =
         (Inl (err 3),
          w\<lparr>trace := trace w @
              [Log ''flow_start'',
               Log ''extract_start'', HttpGet (weather_url cfg ciudad),
               Log ''extract_error'', Log ''extract_time'', Sleep 5,
               Log ''extract_start'', HttpGet (weather_url cfg ciudad),
               Log ''extract_error'', Log ''extract_time'', Sleep 5,
               Log ''extract_start'', HttpGet (weather_url cfg ciudad),
               Log ''extract_error'', Log ''extract_time'', Sleep 5,
               Log ''extract_start'', HttpGet (weather_url cfg ciudad),
               Log ''extract_error'', Log ''extract_time'',
               Log ''flow_error'', Log ''flow_time''],
            http_calls := http_calls w + 4\<rparr>)
     \<and> http_calls (snd (clima_flow cfg clk ciudad json_path w)) = http_calls w + 4
     \<and> occurrences (Log ''extract_start'') (snd (clima_flow cfg clk ciudad json_path w))
         = occurrences (Log ''extract_start'') w + 4
     \<and> occurrences (Log ''transform_start'') (snd (clima_flow cfg clk ciudad json_path w))
         = occurrences (Log ''transform_start'') w
     \<and> occurrences (Log ''save_json_start'') (snd (clima_flow cfg clk ciudad json_path w))
         = occurrences (Log ''save_json_start'') w
     \<and> occurrences (Log ''read_json_start'') (snd (clima_flow cfg clk ciudad json_path w))
         = occurrences (Log ''read_json_start'') w
     \<and> occurrences (Log ''load_start'') (snd (clima_flow cfg clk ciudad json_path w))
         = occurrences (Log ''load_start'') w
     \<and> opens (snd (clima_flow cfg clk ciudad json_path w)) = opens w
     \<and> files (snd (clima_flow cfg clk ciudad json_path w)) = files w
     \<and> mongo_calls (snd (clima_flow cfg clk ciudad json_path w)) = mongo_calls w"
proof -
  from extraction_exhausted[OF assms]
  have 1: "fst (extraer_datos_clima cfg ciudad w) = (Inl (err 3), 4)" by auto
  let ?url = "weather_url cfg ciudad"
  define s0 where "s0 = logger ''flow_start'' w"
  define s1 where "s1 = emit (Sleep 5) (after_failed_request cfg ciudad s0)"
  define s2 where "s2 = emit (Sleep 5) (after_failed_request cfg ciudad s1)"
  define s3 where "s3 = emit (Sleep 5) (after_failed_request cfg ciudad s2)"
  have h: "http s0 = http w" "http_calls s0 = http_calls w"
    "http s1 = http w" "http_calls s1 = Suc (http_calls w)"
    "http s2 = http w" "http_calls s2 = Suc (Suc (http_calls w))"
    "http s3 = http w" "http_calls s3 = Suc (Suc (Suc (http_calls w)))"
    by (simp_all add: s0_def s1_def s2_def s3_def after_failed_request_http logger_fields)
  from assms have a: "api_failure (http w (http_calls w) ?url) = Some (err 0)"
    "api_failure (http w (Suc (http_calls w)) ?url) = Some (err 1)"
    "api_failure (http w (Suc (Suc (http_calls w))) ?url) = Some (err 2)"
    "api_failure (http w (Suc (Suc (Suc (http_calls w)))) ?url) = Some (err 3)"
    by (simp_all add: eval_nat_numeral less_Suc_eq)
  have f: "extraer_datos_clima_fn cfg ciudad s0 = (Inl (err 0), after_failed_request cfg ciudad s0)"
    "extraer_datos_clima_fn cfg ciudad s1 = (Inl (err 1), after_failed_request cfg ciudad s1)"
    "extraer_datos_clima_fn cfg ciudad s2 = (Inl (err 2), after_failed_request cfg ciudad s2)"
    "extraer_datos_clima_fn cfg ciudad s3 = (Inl (err 3), after_failed_request cfg ciudad s3)"
    by (rule extraer_fn_failure, simp add: h a)+
  let ?run = "\<lambda>n. run_with_retries (emit (Sleep 5)) n (extraer_datos_clima_fn cfg ciudad)"
  have r3: "?run 0 s3 = ((Inl (err 3), 1), after_failed_request cfg ciudad s3)"
    by (simp add: f)
  have r2: "?run (Suc 0) s2 = ((Inl (err 3), 2), after_failed_request cfg ciudad s3)"
    using r3 by (simp add: f s3_def)
  have r1: "?run (Suc (Suc 0)) s1 = ((Inl (err 3), 3), after_failed_request cfg ciudad s3)"
    using r2 by (simp add: f s2_def)
  have r0: "?run (Suc (Suc (Suc 0))) s0 = ((Inl (err 3), 4), after_failed_request cfg ciudad s3)"
    using r1 by (simp add: f s1_def)
  have e: "extraer_datos_clima cfg ciudad s0
      = ((Inl (err 3), 4), after_failed_request cfg ciudad s3)"
    using r0 by (simp add: extraer_datos_clima_def task_def numeral_3_eq_3)
  have fl: "clima_flow cfg clk ciudad json_path w
      = (Inl (err 3), logger ''flow_time'' (logger ''flow_error'' (after_failed_request cfg ciudad s3)))"
    by (simp add: clima_flow_def clima_flow_try_def e[unfolded s0_def])
  have ex: "logger ''flow_time'' (logger ''flow_error'' (after_failed_request cfg ciudad s3))
      = w\<lparr>trace := trace w @
              [Log ''flow_start'',
               Log ''extract_start'', HttpGet (weather_url cfg ciudad),
               Log ''extract_error'', Log ''extract_time'', Sleep 5,
               Log ''extract_start'', HttpGet (weather_url cfg ciudad),
               Log ''extract_error'', Log ''extract_time'', Sleep 5,
               Log ''extract_start'', HttpGet (weather_url cfg ciudad),
               Log ''extract_error'', Log ''extract_time'', Sleep 5,
               Log ''extract_start'', HttpGet (weather_url cfg ciudad),
               Log ''extract_error'', Log ''extract_time'',
               Log ''flow_error'', Log ''flow_time''],
            http_calls := http_calls w + 4\<rparr>"
    by (simp add: s0_def s1_def s2_def s3_def after_failed_request_def logger_def emit_def)
  show ?thesis
    unfolding fl ex using 1 by (simp add: occurrences_def)
qed

theorem extraction_exhausts_retries_witness:
  "api_failure (http world_503 (http_calls world_503 + 3)
       (weather_url example_config ''San Jose,CR'')) = Some (HTTPError 503)
   \<and> clima_flow example_config example_clock ''San Jose,CR'' ''clima_data.json'' world_503
       = (Inl (HTTPError 503),
          world_503\<lparr>trace :=
              [Log ''flow_start'',
               Log ''extract_start'', HttpGet (weather_url example_config ''San Jose,CR''),
               Log ''extract_error'', Log ''extract_time'', Sleep 5,
               Log ''extract_start'', HttpGet (weather_url example_config ''San Jose,CR''),
               Log ''extract_error'', Log ''extract_time'', Sleep 5,
               Log ''extract_start'', HttpGet (weather_url example_config ''San Jose,CR''),
               Log ''extract_error'', Log ''extract_time'', Sleep 5,
               Log ''extract_start'', HttpGet (weather_url example_config ''San Jose,CR''),
               Log ''extract_error'', Log ''extract_time'',
               Log ''flow_error'', Log ''flow_time''],
            http_calls := 4\<rparr>)
   \<and> occurrences (Log ''extract_start'')
        (snd (clima_flow example_config example_clock ''San Jose,CR'' ''clima_data.json''
           world_503)) = 4
   \<and> occurrences (Log ''transform_start'')
        (snd (clima_flow example_config example_clock ''San Jose,CR'' ''clima_data.json''
           world_503)) = 0
   \<and> occurrences (Log ''save_json_start'')
        (snd (clima_flow example_config example_clock ''San Jose,CR'' ''clima_data.json''
           world_503)) = 0
   \<and> occurrences (Log ''read_json_start'')
        (snd (clima_flow example_config example_clock ''San Jose,CR'' ''clima_data.json''
           world_503)) = 0
   \<and> occurrences (Log ''load_start'')
        (snd (clima_flow example_config example_clock ''San Jose,CR'' ''clima_data.json''
           world_503)) = 0
   \<and> opens (snd (clima_flow example_config example_clock ''San Jose,CR'' ''clima_data.json''
        world_503)) = 0
   \<and> files (snd (clima_flow example_config example_clock ''San Jose,CR'' ''clima_data.json''
        world_503)) ''clima_data.json'' = None
   \<and> mongo_calls (snd (clima_flow example_config example_clock ''San Jose,CR''
        ''clima_data.json'' world_503)) = 0"
proof -
  have a: "\<forall>i<4. api_failure (http world_503 (http_calls world_503 + i)
       (weather_url example_config ''San Jose,CR'')) = Some (HTTPError 503)"
    by (simp add: world_503_def world_of_def api_failure_def)
  have z: "trace world_503 = []" "http_calls world_503 = 0" "opens world_503 = 0"
    "mongo_calls world_503 = 0" "files world_503 ''clima_data.json'' = None"
    by (simp_all add: world_503_def world_of_def)
  have o: "occurrences ev world_503 = 0" for ev
    by (simp add: occurrences_def z)
  note t = extraction_exhausts_retries[OF a, of example_clock "''clima_data.json''"]
  from t have f: "clima_flow example_config example_clock ''San Jose,CR'' ''clima_data.json'' world_503
       = (Inl (HTTPError 503),
          world_503\<lparr>trace :=
              [Log ''flow_start'',
               Log ''extract_start'', HttpGet (weather_url example_config ''San Jose,CR''),
               Log ''extract_error'', Log ''extract_time'', Sleep 5,
               Log ''extract_start'', HttpGet (weather_url example_config ''San Jose,CR''),
               Log ''extract_error'', Log ''extract_time'', Sleep 5,
               Log ''extract_start'', HttpGet (weather_url example_config ''San Jose,CR''),
               Log ''extract_error'', Log ''extract_time'', Sleep 5,
               Log ''extract_start'', HttpGet (weather_url example_config ''San Jose,CR''),
               Log ''extract_error'', Log ''extract_time'',
               Log ''flow_error'', Log ''flow_time''],
            http_calls := 4\<rparr>)"
    by (simp add: z)
  have 3: "api_failure (http world_503 (http_calls world_503 + 3)
       (weather_url example_config ''San Jose,CR'')) = Some (HTTPError 503)"
    using a by simp
  show ?thesis
    unfolding f using 3 by (simp add: z occurrences_def)
qed

section \<open>Properties of the loader\<close>

lemma cargar_fn_run:
  "cargar_a_mongo_fn cfg d w =
     (loader_result (mongo w (mongo_calls w)),
      w\<lparr>trace := trace w @ loader_events cfg d (mongo w (mongo_calls w)),
        mongo_calls := Suc (mongo_calls w)\<rparr>)"
  by (cases "mongo w (mongo_calls w)")
     (simp_all add: cargar_a_mongo_fn_def cargar_try_def Let_def loader_result_def
        loader_events_def logger_def emit_def)

lemma loader_events_count:
  "length (filter (\<lambda>x. x = ClientClose) (loader_events cfg d out)) = (if acquires out then 1 else 0)"
  "length (filter (\<lambda>x. x = ClientOpen (mongo_uri cfg)) (loader_events cfg d out))
     = (if acquires out then 1 else 0)"
  by (cases out; simp add: loader_events_def acquires_def)+

lemma cargar_fn_fields:
  "mongo (snd (cargar_a_mongo_fn cfg d w)) = mongo w"
  "mongo_calls (snd (cargar_a_mongo_fn cfg d w)) = Suc (mongo_calls w)"
  "occurrences ClientClose (snd (cargar_a_mongo_fn cfg d w))
     = occurrences ClientClose w + (if acquires (mongo w (mongo_calls w)) then 1 else 0)"
  "occurrences (ClientOpen (mongo_uri cfg)) (snd (cargar_a_mongo_fn cfg d w))
     = occurrences (ClientOpen (mongo_uri cfg)) w
       + (if acquires (mongo w (mongo_calls w)) then 1 else 0)"
  by (simp_all add: cargar_fn_run occurrences_def loader_events_count)

lemma emit_sleep_fields:
  "mongo (emit (Sleep d) w) = mongo w"
  "mongo_calls (emit (Sleep d) w) = mongo_calls w"
  "occurrences ClientClose (emit (Sleep d) w) = occurrences ClientClose w"
  "occurrences (ClientOpen u) (emit (Sleep d) w) = occurrences (ClientOpen u) w"
  by (simp_all add: emit_def occurrences_def)

lemma loader_attempts:
  assumes "run_with_retries (emit (Sleep d)) retries (cargar_a_mongo_fn cfg data) w = ((r, n), w')"
  shows "mongo w' = mongo w \<and> mongo_calls w' = mongo_calls w + n \<and> 0 < n \<and> n \<le> Suc retries
     \<and> occurrences ClientClose w' + occurrences (ClientOpen (mongo_uri cfg)) w
         = occurrences ClientClose w + occurrences (ClientOpen (mongo_uri cfg)) w'
     \<and> ((\<forall>i<n. acquires (mongo w (mongo_calls w + i)))
          \<longrightarrow> occurrences ClientClose w' = occurrences ClientClose w + n)
     \<and> r = loader_result (mongo w (mongo_calls w + (n - 1)))
     \<and> (isl r \<longrightarrow> n = Suc retries)"
  using assms
proof (induction retries arbitrary: w r n w')
  case 0
  then have "r = fst (cargar_a_mongo_fn cfg data w)" "n = 1" "w' = snd (cargar_a_mongo_fn cfg data w)"
    by (auto split: prod.splits)
  then show ?case by (simp add: cargar_fn_fields) (simp add: cargar_fn_run)
next
  case (Suc k)
  let ?out = "mongo w (mongo_calls w)"
  define w1 where "w1 = w\<lparr>trace := trace w @ loader_events cfg data ?out,
        mongo_calls := Suc (mongo_calls w)\<rparr>"
  have run: "cargar_a_mongo_fn cfg data w = (loader_result ?out, w1)"
    by (simp add: cargar_fn_run w1_def)
  have w1: "mongo w1 = mongo w" "mongo_calls w1 = Suc (mongo_calls w)"
    "occurrences ClientClose w1 = occurrences ClientClose w + (if acquires ?out then 1 else 0)"
    "occurrences (ClientOpen (mongo_uri cfg)) w1
       = occurrences (ClientOpen (mongo_uri cfg)) w + (if acquires ?out then 1 else 0)"
    using cargar_fn_fields[of cfg data w] by (simp_all add: run)
  show ?case
  proof (cases "loader_result ?out")
    case (Inr s)
    with Suc.prems run have "r = Inr s" "n = 1" "w' = w1" by auto
    with Inr show ?thesis by (simp add: w1)
  next
    case (Inl e)
    obtain r2 n2 w2 where rec:
      "run_with_retries (emit (Sleep d)) k (cargar_a_mongo_fn cfg data) (emit (Sleep d) w1)
         = ((r2, n2), w2)"
      by (cases "run_with_retries (emit (Sleep d)) k (cargar_a_mongo_fn cfg data) (emit (Sleep d) w1)")
         auto
    with Suc.prems run Inl have eq: "r = r2" "n = Suc n2" "w' = w2" by auto
    have f: "mongo (emit (Sleep d) w1) = mongo w"
      "mongo_calls (emit (Sleep d) w1) = Suc (mongo_calls w)"
      "occurrences ClientClose (emit (Sleep d) w1)
         = occurrences ClientClose w + (if acquires ?out then 1 else 0)"
      "occurrences (ClientOpen (mongo_uri cfg)) (emit (Sleep d) w1)
         = occurrences (ClientOpen (mongo_uri cfg)) w + (if acquires ?out then 1 else 0)"
      by (simp_all add: emit_sleep_fields w1)
    note ih0 = Suc.IH[OF rec, unfolded f(1,2)]
    have ih:
      "mongo w2 = mongo w" "mongo_calls w2 = Suc (mongo_calls w) + n2" "0 < n2" "n2 \<le> Suc k"
      "occurrences ClientClose w2 + occurrences (ClientOpen (mongo_uri cfg)) (emit (Sleep d) w1)
         = occurrences ClientClose (emit (Sleep d) w1) + occurrences (ClientOpen (mongo_uri cfg)) w2"
      "(\<forall>i<n2. acquires (mongo w (Suc (mongo_calls w) + i)))
          \<longrightarrow> occurrences ClientClose w2 = occurrences ClientClose (emit (Sleep d) w1) + n2"
      "r2 = loader_result (mongo w (Suc (mongo_calls w) + (n2 - 1)))"
      "isl r2 \<longrightarrow> n2 = Suc k"
      using ih0 by blast+
    have idx: "Suc (mongo_calls w) + (n2 - 1) = mongo_calls w + (Suc n2 - 1)"
      using ih(3) by simp
    show ?thesis
      unfolding eq
    proof (intro conjI impI)
      show "mongo w2 = mongo w" by (rule ih(1))
      show "mongo_calls w2 = mongo_calls w + Suc n2" using ih(2) by simp
      show "0 < Suc n2" by simp
      show "Suc n2 \<le> Suc (Suc k)" using ih(4) by simp
      show "occurrences ClientClose w2 + occurrences (ClientOpen (mongo_uri cfg)) w
         = occurrences ClientClose w + occurrences (ClientOpen (mongo_uri cfg)) w2"
        using ih(5) f(3,4) by (simp split: if_splits)
      show "r2 = loader_result (mongo w (mongo_calls w + (Suc n2 - 1)))"
        using ih(7) idx by simp
    next
      assume a: "\<forall>i<Suc n2. acquires (mongo w (mongo_calls w + i))"
      from a have a0: "acquires ?out" by force
      have "acquires (mongo w (Suc (mongo_calls w) + i))" if "i < n2" for i
        using a[rule_format, of "Suc i"] that by simp
      with ih(6) have "occurrences ClientClose w2 = occurrences ClientClose (emit (Sleep d) w1) + n2"
        by simp
      with f(3) a0 show "occurrences ClientClose w2 = occurrences ClientClose w + Suc n2"
        by simp
    next
      assume "isl r2"
      with ih(8) show "Suc n2 = Suc (Suc k)" by simp
    qed
  qed
qed

text \<open>
  C8. One invocation of the loader leaves the trace of \<open>loader_events\<close>: whenever the
  client was created, \<^verbatim>\<open>ClientClose\<close> comes after it and before the last event, both
  when the insert succeeded and when it raised; the world handed back with the result
  or the exception already holds the close. Over the attempts of the task (at most
  four), the client is closed as often as it was created, exactly \<open>n\<close> times over
  \<open>n\<close> attempts that each created it; and a successful result is the confirmation
  text ending in the inserted id.
\<close>

theorem loader_releases_connection:
  assumes "cargar_a_mongo cfg data w = ((r, n), w')"
  shows "trace (snd (cargar_a_mongo_fn cfg data w))
           = trace w @ loader_events cfg data (mongo w (mongo_calls w))
     \<and> fst (cargar_a_mongo_fn cfg data w) = loader_result (mongo w (mongo_calls w))
     \<and> 0 < n \<and> n \<le> 4
     \<and> occurrences ClientClose w' + occurrences (ClientOpen (mongo_uri cfg)) w
         = occurrences ClientClose w + occurrences (ClientOpen (mongo_uri cfg)) w'
     \<and> ((\<forall>i<n. acquires (mongo w (mongo_calls w + i)))
          \<longrightarrow> occurrences ClientClose w' = occurrences ClientClose w + n)
     \<and> (\<forall>s. r = Inr s \<longrightarrow>
          (\<exists>oid. mongo w (mongo_calls w + (n - 1)) = Inserted oid
             \<and> s = ''Documento insertado en MongoDB con _id='' @ oid))"
proof -
  from assms have run:
    "run_with_retries (emit (Sleep 5)) 3 (cargar_a_mongo_fn cfg data) w = ((r, n), w')"
    by (simp add: cargar_a_mongo_def task_def)
  from loader_attempts[OF run]
  have l1: "0 < n" and l2: "n \<le> Suc 3"
    and l3: "occurrences ClientClose w' + occurrences (ClientOpen (mongo_uri cfg)) w
         = occurrences ClientClose w + occurrences (ClientOpen (mongo_uri cfg)) w'"
    and l4: "(\<forall>i<n. acquires (mongo w (mongo_calls w + i)))
          \<longrightarrow> occurrences ClientClose w' = occurrences ClientClose w + n"
    and l5: "r = loader_result (mongo w (mongo_calls w + (n - 1)))"
    by blast+
  have s: "\<forall>s. r = Inr s \<longrightarrow>
          (\<exists>oid. mongo w (mongo_calls w + (n - 1)) = Inserted oid
             \<and> s = ''Documento insertado en MongoDB con _id='' @ oid)"
  proof (intro allI impI)
    fix s assume "r = Inr s"
    with l5 have "loader_result (mongo w (mongo_calls w + (n - 1))) = Inr s" by simp
    then show "\<exists>oid. mongo w (mongo_calls w + (n - 1)) = Inserted oid
             \<and> s = ''Documento insertado en MongoDB con _id='' @ oid"
      by (cases "mongo w (mongo_calls w + (n - 1))") (auto simp: loader_result_def)
  qed
  have n4: "n \<le> 4" using l2 by simp
  have t: "trace (snd (cargar_a_mongo_fn cfg data w))
           = trace w @ loader_events cfg data (mongo w (mongo_calls w))"
    by (simp add: cargar_fn_run)
  have f: "fst (cargar_a_mongo_fn cfg data w) = loader_result (mongo w (mongo_calls w))"
    by (simp add: cargar_fn_run)
  from t f l1 n4 l3 l4 s show ?thesis by blast
qed

theorem loader_releases_connection_witness:
  "fst (cargar_a_mongo example_config record_A world_D)
     = (Inr ''Documento insertado en MongoDB con _id=65a1b2c3'', 2)
   \<and> acquires (mongo world_D 0) \<and> acquires (mongo world_D 1)
   \<and> occurrences ClientClose (snd (cargar_a_mongo example_config record_A world_D)) = 2"
proof -
  have m: "mongo world_D = store_second_try" "mongo_calls world_D = 0"
    "occurrences ClientClose world_D = 0"
    by (simp_all add: world_D_def world_of_def occurrences_def)
  have f: "fst (cargar_a_mongo example_config record_A world_D)
     = (Inr ''Documento insertado en MongoDB con _id=65a1b2c3'', 2)"
    by (simp add: cargar_a_mongo_def task_def eval_nat_numeral cargar_fn_run m
        store_second_try_def loader_result_def emit_def)
  then have e: "cargar_a_mongo example_config record_A world_D
     = ((Inr ''Documento insertado en MongoDB con _id=65a1b2c3'', 2),
        snd (cargar_a_mongo example_config record_A world_D))"
    by (metis prod.collapse)
  have a: "acquires (mongo world_D 0)" "acquires (mongo world_D 1)"
    by (simp_all add: m store_second_try_def acquires_def)
  then have all: "\<forall>i<2. acquires (mongo world_D (mongo_calls world_D + i))"
    by (simp add: m less_Suc_eq eval_nat_numeral)
  from loader_releases_connection[OF e]
  have "(\<forall>i<2. acquires (mongo world_D (mongo_calls world_D + i)))
          \<longrightarrow> occurrences ClientClose (snd (cargar_a_mongo example_config record_A world_D))
              = occurrences ClientClose world_D + 2"
    by blast
  with all m(3)
  have "occurrences ClientClose (snd (cargar_a_mongo example_config record_A world_D)) = 2"
    by simp
  with f a show ?thesis by simp
qed

section \<open>Properties of the JSON text\<close>



lemma hex_value_hex_digit: "d < 16 \<Longrightarrow> hex_value (hex_digit d) = Some d"
  by (auto simp: hex_value_def hex_digit_def Let_def)

lemma parse_chars_escape:
  "parse_chars (escape_char c @ t) = cons_char c (parse_chars t)"
proof -
  let ?n = "of_char c :: nat"
  consider "c = dq" | "c = bs" | "c = CHR 0x0A" | "c = CHR 0x0D" | "c = CHR 0x09"
    | "c = CHR 0x08" | "c = CHR 0x0C"
    | "c \<noteq> dq" "c \<noteq> bs" "c \<noteq> CHR 0x0A" "c \<noteq> CHR 0x0D" "c \<noteq> CHR 0x09"
      "c \<noteq> CHR 0x08" "c \<noteq> CHR 0x0C" "?n < 32"
    | "c \<noteq> dq" "c \<noteq> bs" "\<not> ?n < 32"
    by blast
  then show ?thesis
  proof cases
    case 1
    then show ?thesis by (simp add: escape_char_def unescape_def dq_def bs_def)
  next
    case 2
    then show ?thesis by (simp add: escape_char_def unescape_def dq_def bs_def)
  next
    case 3
    then show ?thesis by (simp add: escape_char_def unescape_def dq_def bs_def)
  next
    case 4
    then show ?thesis by (simp add: escape_char_def unescape_def dq_def bs_def)
  next
    case 5
    then show ?thesis by (simp add: escape_char_def unescape_def dq_def bs_def)
  next
    case 6
    then show ?thesis by (simp add: escape_char_def unescape_def dq_def bs_def)
  next
    case 7
    then show ?thesis by (simp add: escape_char_def unescape_def dq_def bs_def)
  next
    case 8
    have h: "hex_value (hex_digit (?n div 16)) = Some (?n div 16)"
      "hex_value (hex_digit (?n mod 16)) = Some (?n mod 16)"
      using 8 by (simp_all add: hex_value_hex_digit)
    have z: "hex_value (CHR ''0'') = Some 0" by (simp add: hex_value_def)
    have e: "escape_char c = [bs, CHR ''u'', CHR ''0'', CHR ''0'',
              hex_digit (?n div 16), hex_digit (?n mod 16)]"
      using 8 by (simp add: escape_char_def)
    have "char_of (16 * (?n div 16) + ?n mod 16) = c" by simp
    then show ?thesis by (simp add: e h z bs_def dq_def)
  next
    case 9
    then have "c \<noteq> CHR 0x0A" "c \<noteq> CHR 0x0D" "c \<noteq> CHR 0x09" "c \<noteq> CHR 0x08"
      "c \<noteq> CHR 0x0C"
      by auto
    with 9 show ?thesis by (simp add: escape_char_def)
  qed
qed

lemma cons_char_Some: "cons_char c (Some (s, r)) = Some (c # s, r)"
  by (simp add: cons_char_def)

lemma parse_chars_dump:
  "parse_chars (concat (map escape_char s) @ dq # rest) = Some (s, rest)"
  by (induction s) (simp_all add: parse_chars_escape cons_char_Some)

lemma parse_chars_dump_str:
  "parse_chars (tl (dump_str s) @ rest) = Some (s, rest)"
  using parse_chars_dump[of s rest] by (simp add: dump_str_def)

lemma dump_str_head: "dump_str s = dq # tl (dump_str s)"
  by (simp add: dump_str_def)












































section \<open>Properties of the checkpoint file\<close>








end
